theory Spec2Isabelle
  imports Complex_Main "HOL-Library.Sublist"
begin

text \<open>
  A model of acoss/extractors.py, the batch audio feature extractor: the default profile,
  \<open>compute_features\<close> for one file, \<open>compute_features_from_list_file\<close> for a manifest and
  \<open>batch_feature_extractor\<close> for a directory. Exceptions are values of a sum type, the
  module-level state is passed explicitly, and every call on an external collaborator is
  recorded in a trace, so that what was called, in which order and how often can be
  stated.
\<close>

section \<open>Python primitives used by acoss/extractors.py\<close>

text \<open>
  Exceptions are values. \<open>IOError\<close> carries the message the source formats;
  \<open>CollaboratorError\<close> stands for whatever an external collaborator (audio decoding,
  a feature algorithm, the filesystem, the HDF5 writer) raises.
\<close>

datatype error =
    IOError string
  | IndexError
  | ZeroDivisionError
  | AttributeError string
  | TypeError string
  | ValueError string
  | CollaboratorError string

text \<open>\<^verbatim>\<open>s.split(sep)\<close> for a separator of one character: never an empty list.\<close>

fun str_split :: "char \<Rightarrow> string \<Rightarrow> string list" where
  "str_split sep [] = [[]]"
| "str_split sep (c # cs) =
     (if c = sep then [] # str_split sep cs
      else (case str_split sep cs of [] \<Rightarrow> [[c]] | w # ws \<Rightarrow> (c # w) # ws))"

text \<open>\<^verbatim>\<open>xs[-2]\<close>: the second-to-last element, IndexError when there is none.\<close>

definition index_neg2 :: "'a list \<Rightarrow> error + 'a" where
  "index_neg2 xs = (if length xs < 2 then Inl IndexError else Inr (xs ! (length xs - 2)))"

text \<open>\<^verbatim>\<open>os.path.basename(p)\<close> of posixpath: \<^verbatim>\<open>p[p.rfind('/') + 1:]\<close>.\<close>

definition os_path_basename :: "string \<Rightarrow> string" where
  "os_path_basename p = rev (takeWhile (\<lambda>c. c \<noteq> CHR ''/'') (rev p))"

text \<open>
  \<^verbatim>\<open>s.replace(old, new)\<close>: every non-overlapping occurrence of \<open>old\<close>, scanning from
  the left. An empty \<open>old\<close> matches before every character and at the end.
\<close>

function str_replace :: "string \<Rightarrow> string \<Rightarrow> string \<Rightarrow> string" where
  "str_replace old new [] = (if old = [] then new else [])"
| "str_replace old new (c # cs) =
     (if old = [] then new @ c # str_replace old new cs
      else if prefix old (c # cs) then new @ str_replace old new (drop (length old) (c # cs))
      else c # str_replace old new cs)"
  by pat_completeness auto
termination
  by (relation "measure (\<lambda>(old, new, s). length s)") auto

section \<open>The extraction profile\<close>

text \<open>
  The profile is a dict with six fixed keys. \<open>endtime\<close> is \<open>None\<close> or a number of
  seconds; the numbers that Python holds as floats are reals here, rounding left out.
\<close>

record profile =
  sample_rate :: int
  input_audio_format :: string
  downsample_audio :: bool
  downsample_factor :: int
  endtime :: "real option"
  features :: "string list"

definition PROFILE :: profile where
  "PROFILE = \<lparr>sample_rate = 44100,
              input_audio_format = ''.mp3'',
              downsample_audio = False,
              downsample_factor = 2,
              endtime = None,
              features = [''hpcp'', ''key_extractor'', ''madmom_features'', ''mfcc_htk'']\<rparr>"

section \<open>The feature collaborator\<close>

text \<open>
  Modelled from the spec: the class \<open>AudioFeatures\<close> of acoss/features.py is not among
  the sources, so it is a parameter of the model: a constructor that decodes the file at
  the given sample rate, the two signal operations the extractor calls (both return the
  new signal, which the extractor stores in \<open>audio_vector\<close>), and the table of no-argument
  attributes that \<^verbatim>\<open>getattr(feature, name)\<close> reaches by name. Each of them may raise. As the spec has it, a feature method
  returns a self-contained value and shares no mutable state with the other calls: it
  reads the object and does not change it.
\<close>

record 's AudioFeatures =
  audio_file :: string
  fs :: int
  audio_vector :: "'s list"

text \<open>
  What \<^verbatim>\<open>getattr(feature, name)\<close> finds: nothing (AttributeError), an attribute that
  cannot be called (TypeError at the call), or a method.
\<close>

datatype ('s, 'v) attribute =
    No_attribute
  | Not_callable
  | Method "'s AudioFeatures \<Rightarrow> error + 'v"

record ('s, 'v) features_module =
  read_audio :: "string \<Rightarrow> int \<Rightarrow> error + 's list"
  audio_slicer :: "'s AudioFeatures \<Rightarrow> real \<Rightarrow> error + 's list"
  resample_audio :: "'s AudioFeatures \<Rightarrow> real \<Rightarrow> error + 's list"
  getattr_method :: "string \<Rightarrow> ('s, 'v) attribute"

text \<open>The calls made on the collaborator, in the order they are made.\<close>

datatype call =
    Call_AudioFeatures string int
  | Call_audio_slicer real
  | Call_resample_audio real
  | Call_feature string

fun is_feature_call :: "call \<Rightarrow> bool" where
  "is_feature_call (Call_feature m) = True"
| "is_feature_call c = False"

text \<open>A computation that records its calls and either raises or returns.\<close>

type_synonym 'a traced = "call list \<times> (error + 'a)"

definition tbind :: "'a traced \<Rightarrow> ('a \<Rightarrow> 'b traced) \<Rightarrow> 'b traced" where
  "tbind m f =
     (case m of
        (cs, Inl e) \<Rightarrow> (cs, Inl e)
      | (cs, Inr a) \<Rightarrow> (case f a of (cs', r) \<Rightarrow> (cs @ cs', r)))"

text \<open>Values of the output dictionary: a computed feature, or a string.\<close>

datatype 'v pyval = Feat 'v | Str string

type_synonym 'v feature_dict = "string \<rightharpoonup> 'v pyval"

section \<open>compute_features\<close>

text \<open>Lines 56-58: construct the object, refuse an empty signal.\<close>

definition construct :: "('s, 'v) features_module \<Rightarrow> string \<Rightarrow> profile \<Rightarrow> 's AudioFeatures traced" where
  "construct M audio_path params =
     ([Call_AudioFeatures audio_path (sample_rate params)],
      (case read_audio M audio_path (sample_rate params) of
         Inl e \<Rightarrow> Inl e
       | Inr v \<Rightarrow>
           if length v = 0
           then Inl (IOError (''Empty or invalid audio recording file -'' @ audio_path @ ''-''))
           else Inr \<lparr>audio_file = audio_path, fs = sample_rate params, audio_vector = v\<rparr>))"

text \<open>Lines 60-61: \<^verbatim>\<open>if params['endtime']\<close> is false for \<open>None\<close> and for zero.\<close>

definition trim :: "('s, 'v) features_module \<Rightarrow> profile \<Rightarrow> 's AudioFeatures \<Rightarrow> 's AudioFeatures traced" where
  "trim M params feature =
     (case endtime params of
        None \<Rightarrow> ([], Inr feature)
      | Some t \<Rightarrow>
          if t = 0 then ([], Inr feature)
          else ([Call_audio_slicer t],
                (case audio_slicer M feature t of
                   Inl e \<Rightarrow> Inl e
                 | Inr v \<Rightarrow> Inr (feature\<lparr>audio_vector := v\<rparr>))))"

text \<open>Lines 62-63: the quotient is evaluated first, then the call is made.\<close>

definition downsample :: "('s, 'v) features_module \<Rightarrow> profile \<Rightarrow> 's AudioFeatures \<Rightarrow> 's AudioFeatures traced" where
  "downsample M params feature =
     (if downsample_audio params then
        (if downsample_factor params = 0 then ([], Inl ZeroDivisionError)
         else
           (let rate = real_of_int (sample_rate params) / real_of_int (downsample_factor params)
            in ([Call_resample_audio rate],
                (case resample_audio M feature rate of
                   Inl e \<Rightarrow> Inl e
                 | Inr v \<Rightarrow> Inr (feature\<lparr>audio_vector := v\<rparr>)))))
      else ([], Inr feature))"

text \<open>Lines 65-68: the loop over the feature names.\<close>

fun compute_all ::
  "('s, 'v) features_module \<Rightarrow> 's AudioFeatures \<Rightarrow> string list \<Rightarrow> 'v feature_dict \<Rightarrow> 'v feature_dict traced" where
  "compute_all M feature [] out_dict = ([], Inr out_dict)"
| "compute_all M feature (m # ms) out_dict =
     (case getattr_method M m of
        No_attribute \<Rightarrow> ([], Inl (AttributeError m))
      | Not_callable \<Rightarrow> ([], Inl (TypeError ''object is not callable''))
      | Method f \<Rightarrow>
          tbind ([Call_feature m],
                 (case f feature of Inl e \<Rightarrow> Inl e | Inr v \<Rightarrow> Inr (out_dict(m \<mapsto> Feat v))))
            (compute_all M feature ms))"

text \<open>Lines 56-68 in sequence: the object is prepared, then every feature is computed.\<close>

definition prepare :: "('s, 'v) features_module \<Rightarrow> string \<Rightarrow> profile \<Rightarrow> 's AudioFeatures traced" where
  "prepare M audio_path params =
     tbind (construct M audio_path params) (\<lambda>feature.
     tbind (trim M params feature) (\<lambda>feature.
     downsample M params feature))"

definition features_stage :: "('s, 'v) features_module \<Rightarrow> string \<Rightarrow> profile \<Rightarrow> 'v feature_dict traced" where
  "features_stage M audio_path params =
     tbind (prepare M audio_path params) (\<lambda>feature.
     compute_all M feature (features params) Map.empty)"

text \<open>Lines 70-76: the two reserved keys.\<close>

definition metadata_stage :: "string \<Rightarrow> profile \<Rightarrow> 'v feature_dict \<Rightarrow> 'v feature_dict traced" where
  "metadata_stage audio_path params out_dict =
     (let track_id = str_replace (input_audio_format params) [] (os_path_basename audio_path);
          out_dict = out_dict(''track_id'' \<mapsto> Str track_id)
      in (case index_neg2 (str_split CHR ''/'' audio_path) of
            Inl e \<Rightarrow> ([], Inl e)
          | Inr label \<Rightarrow> ([], Inr (out_dict(''label'' \<mapsto> Str label)))))"

definition compute_features :: "('s, 'v) features_module \<Rightarrow> string \<Rightarrow> profile \<Rightarrow> 'v feature_dict traced" where
  "compute_features M audio_path params =
     tbind (features_stage M audio_path params) (metadata_stage audio_path params)"






text \<open>The files on which the collaborator was constructed, in order.\<close>

fun audio_files_of :: "call list \<Rightarrow> string list" where
  "audio_files_of [] = []"
| "audio_files_of (Call_AudioFeatures p sr # cs) = p # audio_files_of cs"
| "audio_files_of (c # cs) = audio_files_of cs"

section \<open>compute_features_from_list_file\<close>

text \<open>
  Modelled from the spec: \<open>read_txt_file\<close> of acoss/utils.py is not among the sources; it
  reads the manifest as a sequence of line-delimited path strings, and is a parameter of
  the model. So are the library calls of the runner: \<^verbatim>\<open>os.path.exists\<close>, \<^verbatim>\<open>os.makedirs\<close>,
  \<^verbatim>\<open>dd.io.save\<close> and the two clock readings (\<^verbatim>\<open>time.monotonic()\<close> at line 92,
  \<^verbatim>\<open>time.time()\<close> at line 119). The disk is any type \<open>'d\<close>; an operation that raises
  leaves it as it was. The logger and the progress bar do not raise.
\<close>

record ('d, 's, 'v) environment =
  features_py :: "('s, 'v) features_module"
  read_txt_file :: "'d \<Rightarrow> string \<Rightarrow> error + string list"
  os_path_exists :: "'d \<Rightarrow> string \<Rightarrow> bool"
  os_makedirs :: "'d \<Rightarrow> string \<Rightarrow> error + 'd"
  dd_io_save :: "'d \<Rightarrow> string \<Rightarrow> 'v feature_dict \<Rightarrow> error + 'd"
  time_monotonic :: real
  time_time :: real

text \<open>
  The log records, one constructor per format string of the source:
  \<^verbatim>\<open>"Extracting features for %s "\<close>, \<^verbatim>\<open>"Empty collection txt file -%s- !"\<close>,
  \<^verbatim>\<open>"Error: skipping computing features for audio file --%s-- "\<close> and
  \<^verbatim>\<open>"Process finished in - %s - seconds"\<close>.
\<close>

datatype log_record =
    Info_extracting string
  | Debug_empty_collection string
  | Debug_skipping string
  | Info_finished real

text \<open>
  The state of the process: the disk, the module-level list \<open>_ERRORS\<close>, the log, the
  progress bar (its index, its maximum, and what each \<^verbatim>\<open>next()\<close> displayed as index/max),
  the calls made on the collaborator and the artifacts \<^verbatim>\<open>dd.io.save\<close> has written.
\<close>

record ('d, 'v) process_state =
  disk :: 'd
  ERRORS :: "string list"
  LOG_FILE :: "log_record list"
  bar_index :: nat
  bar_max :: nat
  bar_finished :: bool
  progress :: "(nat \<times> nat) list"
  calls :: "call list"
  saved :: "(string \<times> 'v feature_dict) list"

text \<open>
  Lines 105-112, the body of the \<^verbatim>\<open>try\<close>: the calls it made, the disk it left, the
  artifact it wrote (if any) and the exception it raised (if any).
\<close>

definition try_body ::
  "('d, 's, 'v) environment \<Rightarrow> string \<Rightarrow> profile \<Rightarrow> 'd \<Rightarrow> string
     \<Rightarrow> call list \<times> 'd \<times> (string \<times> 'v feature_dict) list \<times> error option" where
  "try_body env feature_dir params d song =
     (case compute_features (features_py env) song params of
        (cs, Inl e) \<Rightarrow> (cs, d, [], Some e)
      | (cs, Inr feature_dict) \<Rightarrow>
          (case index_neg2 (str_split CHR ''/'' song) of
             Inl e \<Rightarrow> (cs, d, [], Some e)
           | Inr work_id \<Rightarrow>
               (let work_dir = feature_dir @ work_id @ ''/'' in
                (case (if \<not> os_path_exists env d work_dir then os_makedirs env d work_dir
                       else Inr d) of
                   Inl e \<Rightarrow> (cs, d, [], Some e)
                 | Inr d1 \<Rightarrow>
                     (let target = work_dir
                            @ str_replace (input_audio_format params) [] (os_path_basename song)
                            @ ''.h5''
                      in (case dd_io_save env d1 target feature_dict of
                            Inl e \<Rightarrow> (cs, d1, [], Some e)
                          | Inr d2 \<Rightarrow> (cs, d2, [(target, feature_dict)], None)))))))"

text \<open>\<^verbatim>\<open>progress_bar.next()\<close>.\<close>

definition bar_next :: "('d, 'v) process_state \<Rightarrow> ('d, 'v) process_state" where
  "bar_next st =
     st\<lparr>bar_index := Suc (bar_index st),
        progress := progress st @ [(Suc (bar_index st), bar_max st)]\<rparr>"

text \<open>Lines 104-117: one iteration of the loop, the \<^verbatim>\<open>except\<close> clause included.\<close>

definition process_song ::
  "('d, 's, 'v) environment \<Rightarrow> string \<Rightarrow> string \<Rightarrow> profile
     \<Rightarrow> ('d, 'v) process_state \<Rightarrow> string \<Rightarrow> ('d, 'v) process_state" where
  "process_song env input_txt_file feature_dir params st song =
     (case try_body env feature_dir params (disk st) song of
        (cs, d, written, raised) \<Rightarrow>
          (let st1 = st\<lparr>disk := d, calls := calls st @ cs, saved := saved st @ written\<rparr>;
               st2 = (case raised of
                        None \<Rightarrow> st1
                      | Some e \<Rightarrow>
                          st1\<lparr>ERRORS := ERRORS st1 @ [input_txt_file] @ [song],
                              LOG_FILE := LOG_FILE st1 @ [Debug_skipping song]\<rparr>)
           in bar_next st2))"

fun process_songs ::
  "('d, 's, 'v) environment \<Rightarrow> string \<Rightarrow> string \<Rightarrow> profile
     \<Rightarrow> ('d, 'v) process_state \<Rightarrow> string list \<Rightarrow> ('d, 'v) process_state" where
  "process_songs env input_txt_file feature_dir params st [] = st"
| "process_songs env input_txt_file feature_dir params st (song # data) =
     process_songs env input_txt_file feature_dir params
       (process_song env input_txt_file feature_dir params st song) data"

text \<open>The whole function: the final state, and the exception that escapes it (if any).\<close>

definition compute_features_from_list_file ::
  "('d, 's, 'v) environment \<Rightarrow> string \<Rightarrow> string \<Rightarrow> profile
     \<Rightarrow> ('d, 'v) process_state \<Rightarrow> ('d, 'v) process_state \<times> error option" where
  "compute_features_from_list_file env input_txt_file feature_dir params st =
     (let start_time = time_monotonic env;
          st1 = st\<lparr>LOG_FILE := LOG_FILE st @ [Info_extracting input_txt_file]\<rparr>
      in (case read_txt_file env (disk st1) input_txt_file of
            Inl e \<Rightarrow> (st1, Some e)
          | Inr lines \<Rightarrow>
              (let data = filter (os_path_exists env (disk st1)) lines in
               if length data < 1 then
                 (st1\<lparr>LOG_FILE := LOG_FILE st1 @ [Debug_empty_collection input_txt_file]\<rparr>,
                  Some (IOError (''Empty collection txt file -'' @ input_txt_file @ ''- !'')))
               else
                 (let st2 = st1\<lparr>bar_index := 0, bar_max := length data, bar_finished := False\<rparr>;
                      st3 = process_songs env input_txt_file feature_dir params st2 data;
                      st4 = st3\<lparr>bar_finished := True\<rparr>
                  in (st4\<lparr>LOG_FILE := LOG_FILE st4 @ [Info_finished (start_time - time_time env)]\<rparr>,
                      None)))))"

text \<open>
  The songs whose \<^verbatim>\<open>try\<close> body raised, in the order of the loop: the same recursion as
  \<open>process_songs\<close>, on the disk alone (the only part of the state the body reads).
\<close>

fun failed_songs ::
  "('d, 's, 'v) environment \<Rightarrow> string \<Rightarrow> profile \<Rightarrow> 'd \<Rightarrow> string list \<Rightarrow> string list" where
  "failed_songs env feature_dir params d [] = []"
| "failed_songs env feature_dir params d (song # data) =
     (case try_body env feature_dir params d song of
        (cs, d', written, raised) \<Rightarrow>
          (case raised of None \<Rightarrow> [] | Some e \<Rightarrow> [song])
            @ failed_songs env feature_dir params d' data)"

text \<open>The artifacts written and the disk left, by the same recursion.\<close>

fun written_artifacts ::
  "('d, 's, 'v) environment \<Rightarrow> string \<Rightarrow> profile \<Rightarrow> 'd \<Rightarrow> string list
     \<Rightarrow> (string \<times> 'v feature_dict) list" where
  "written_artifacts env feature_dir params d [] = []"
| "written_artifacts env feature_dir params d (song # data) =
     (case try_body env feature_dir params d song of
        (cs, d', written, raised) \<Rightarrow>
          written @ written_artifacts env feature_dir params d' data)"

fun disk_after ::
  "('d, 's, 'v) environment \<Rightarrow> string \<Rightarrow> profile \<Rightarrow> 'd \<Rightarrow> string list \<Rightarrow> 'd" where
  "disk_after env feature_dir params d [] = d"
| "disk_after env feature_dir params d (song # data) =
     (case try_body env feature_dir params d song of
        (cs, d', written, raised) \<Rightarrow> disk_after env feature_dir params d' data)"

section \<open>batch_feature_extractor\<close>

text \<open>\<^verbatim>\<open>os.path.join(a, b)\<close> of posixpath.\<close>

definition os_path_join :: "string \<Rightarrow> string \<Rightarrow> string" where
  "os_path_join a b =
     (if prefix ''/'' b then b
      else if a = [] \<or> suffix ''/'' a then a @ b
      else a @ ''/'' @ b)"

text \<open>
  What the orchestrator takes from outside: the name of the temporary file, the triples
  \<^verbatim>\<open>os.walk\<close> yields, the list \<^verbatim>\<open>glob.glob\<close> returns once the manifest is written, and
  what a runner invocation raises in its worker (\<open>None\<close> when it returns).
\<close>

record batch_environment =
  temp_name :: string
  os_walk :: "string \<Rightarrow> (string \<times> string list \<times> string list) list"
  glob_glob :: "string \<Rightarrow> string list"
  invocation_raises :: "string \<times> string \<times> profile \<Rightarrow> error option"

text \<open>Lines 130-134: the lines appended to the temporary manifest.\<close>

definition manifest_lines :: "(string \<times> string list \<times> string list) list \<Rightarrow> string list" where
  "manifest_lines walk =
     concat (map (\<lambda>(path, subdirs, files).
                    map (\<lambda>name. os_path_join path name @ [CHR 0x0A])
                        (filter (\<lambda>name. suffix ''.mp3'' name) files))
                 walk)"

text \<open>
  \<^verbatim>\<open>Parallel(n_jobs=n_workers)(tasks)\<close> of joblib refuses \<open>n_jobs = 0\<close>; otherwise it hands
  every task of the iterable to its workers, at most \<open>n_jobs\<close> of them at a time, and
  re-raises an exception that a task raises. The model returns the tasks handed over and
  the exception that comes out (the first in task order); how the workers interleave,
  and which tasks have started when one raises, is left out.
\<close>

definition Parallel :: "int \<Rightarrow> ('a \<Rightarrow> error option) \<Rightarrow> 'a list \<Rightarrow> 'a list \<times> error option" where
  "Parallel n_jobs call tasks =
     (if n_jobs = 0 then ([], Some (ValueError ''n_jobs == 0 in Parallel has no meaning''))
      else (tasks, (case List.map_filter call tasks of [] \<Rightarrow> None | e # es \<Rightarrow> Some e)))"

text \<open>
  Lines 128-147: the manifest that is written, the runner invocations that are
  dispatched, each an argument triple of \<open>compute_features_from_list_file\<close>, and whether
  the skip notice of line 147 is printed. Every exception of the dispatch, the one a
  runner raises included, is caught at line 146, so none escapes.
\<close>

record batch_outcome =
  manifest_written :: "string list"
  dispatched :: "(string \<times> string \<times> profile) list"
  skipped_notice :: bool

definition batch_feature_extractor ::
  "batch_environment \<Rightarrow> string \<Rightarrow> string \<Rightarrow> int \<Rightarrow> profile \<Rightarrow> batch_outcome" where
  "batch_feature_extractor env audio_dir feature_dir n_workers extractor_profile =
     (let collection_files = glob_glob env (temp_name env);
          feature_path = map (\<lambda>i. feature_dir) [0..<length collection_files];
          param_list = map (\<lambda>i. extractor_profile) [0..<length collection_files];
          args = zip collection_files (zip feature_path param_list)
      in (case Parallel n_workers (invocation_raises env) args of
            (tasks, raised) \<Rightarrow>
              \<lparr>manifest_written = manifest_lines (os_walk env audio_dir),
               dispatched = tasks,
               skipped_notice = (case raised of None \<Rightarrow> False | Some e \<Rightarrow> True)\<rparr>))"

section \<open>A test double\<close>

text \<open>
  A small collaborator and environment on which the model runs: the signal is a list of
  numbers, the trim keeps the first \<open>\<lfloor>endtime\<rfloor>\<close> samples, the resampling keeps
  every second sample (so that the order of the two shows in a result), and two feature
  methods exist: the length of the signal and the sum of its samples. \<open>song2\<close> decodes to an empty signal, \<open>song3\<close> does not decode.
\<close>

definition fake_module :: "(nat, nat) features_module" where
  "fake_module =
     \<lparr>read_audio = (\<lambda>p sr. if p = ''cliqueA/song2.mp3'' then Inr []
                           else if p = ''cliqueA/song3.mp3'' then Inl (CollaboratorError ''decode'')
                           else Inr [1, 2, 3, 4, 5, 6]),
      audio_slicer = (\<lambda>feature t. Inr (take (nat \<lfloor>t\<rfloor>) (audio_vector feature))),
      resample_audio = (\<lambda>feature rate.
                          Inr (map (\<lambda>i. audio_vector feature ! (2 * i))
                                   [0..<length (audio_vector feature) div 2])),
      getattr_method =
        (\<lambda>m. if m = ''hpcp'' then Method (\<lambda>feature. Inr (length (audio_vector feature)))
             else if m = ''mfcc_htk'' then Method (\<lambda>feature. Inr (sum_list (audio_vector feature)))
             else if m = ''audio_vector'' then Not_callable
             else No_attribute)\<rparr>"

definition fake_profile :: profile where
  "fake_profile = PROFILE\<lparr>features := [''hpcp'', ''mfcc_htk'']\<rparr>"

text \<open>The disk is the list of the paths that exist; \<open>list.txt\<close> names one missing file.\<close>

definition fake_env :: "(string list, nat, nat) environment" where
  "fake_env =
     \<lparr>features_py = fake_module,
      read_txt_file = (\<lambda>d p. if p = ''list.txt''
                               then Inr [''cliqueA/song1.mp3'', ''cliqueA/missing.mp3'',
                                         ''cliqueA/song2.mp3'', ''cliqueB/song4.mp3'']
                             else if p = ''gone.txt'' then Inr [''cliqueA/missing.mp3'']
                             else Inl (CollaboratorError ''no such file'')),
      os_path_exists = (\<lambda>d p. p \<in> set d),
      os_makedirs = (\<lambda>d p. Inr (p # d)),
      dd_io_save = (\<lambda>d p feature_dict. Inr (p # d)),
      time_monotonic = 100,
      time_time = 1700000000\<rparr>"

definition fake_state :: "(string list, nat) process_state" where
  "fake_state =
     \<lparr>disk = [''cliqueA/song1.mp3'', ''cliqueA/song2.mp3'', ''cliqueB/song4.mp3'',
              ''list.txt'', ''gone.txt''],
      ERRORS = [], LOG_FILE = [], bar_index = 0, bar_max = 0, bar_finished = False,
      progress = [], calls = [], saved = []\<rparr>"

definition fake_batch_env :: batch_environment where
  "fake_batch_env =
     \<lparr>temp_name = ''/work/tmpk3v9_abc'',
      os_walk = (\<lambda>d. if d = ''audio_dir''
                      then [(''audio_dir'', [''cliqueA''], [''README.txt'']),
                            (''audio_dir/cliqueA'', [], [''song1.mp3'', ''song2.mp3'', ''cover.jpg''])]
                      else []),
      glob_glob = (\<lambda>p. if p = ''/work/tmpk3v9_abc'' then [p] else []),
      invocation_raises = (\<lambda>task. None)\<rparr>"

section \<open>Strings and paths\<close>

lemma str_split_not_Nil [simp]: "str_split sep s \<noteq> []"
  by (induction s) (auto split: list.splits)












lemma length_str_split: "length (str_split sep s) = Suc (count_list s sep)"
  by (induction s) (auto split: list.splits)

lemma str_split_short: "length (str_split sep s) < 2 \<longleftrightarrow> sep \<notin> set s"
  by (simp add: length_str_split count_list_0_iff)


section \<open>Traced computations and the feature loop\<close>

lemma tbind_Inl [simp]: "tbind (cs, Inl e) f = (cs, Inl e)"
  by (simp add: tbind_def)

lemma tbind_Inr [simp]: "tbind (cs, Inr a) f = (cs @ fst (f a), snd (f a))"
  by (simp add: tbind_def split: prod.splits)

lemma snd_tbind_Inr:
  "snd (tbind m f) = Inr b \<Longrightarrow> \<exists>a. snd m = Inr a \<and> snd (f a) = Inr b"
  by (cases m; cases "snd m") (auto simp: tbind_def split: prod.splits)



section \<open>The default profile\<close>

text \<open>
  Claim C5, as amended. The default profile has sample rate 44100, downsampling disabled,
  no end-time trim, and a feature list of exactly four names: \<open>hpcp\<close>, \<open>key_extractor\<close>,
  \<open>madmom_features\<close> and \<open>mfcc_htk\<close>.
\<close>

theorem PROFILE_default_value:
  "sample_rate PROFILE = 44100 \<and> downsample_audio PROFILE = False \<and> endtime PROFILE = None
   \<and> features PROFILE = [''hpcp'', ''key_extractor'', ''madmom_features'', ''mfcc_htk'']
   \<and> length (features PROFILE) = 4 \<and> distinct (features PROFILE)"
  by (simp add: PROFILE_def)

text \<open>
  Claim C5 as stated asks for five feature names; the list of \<open>PROFILE\<close> has four.
\<close>

theorem PROFILE_five_features_counterexample:
  "\<not> (sample_rate PROFILE = 44100 \<and> downsample_audio PROFILE = False \<and> endtime PROFILE = None
      \<and> length (features PROFILE) = 5)"
  by (simp add: PROFILE_def)

section \<open>Properties of compute_features\<close>

lemmas cf_eval = compute_features_def features_stage_def prepare_def construct_def trim_def
  downsample_def metadata_stage_def index_neg2_def fake_module_def fake_profile_def PROFILE_def
  os_path_basename_def

text \<open>
  Claim C6. When the decoded signal has length zero, \<open>compute_features\<close> raises the IOError
  "Empty or invalid audio recording file", and the only call made on the collaborator is
  its construction: no feature method has been invoked.
\<close>

theorem empty_signal_rejected_first:
  assumes "read_audio M audio_path (sample_rate params) = Inr v" and "length v = 0"
  shows "snd (compute_features M audio_path params) =
           Inl (IOError (''Empty or invalid audio recording file -'' @ audio_path @ ''-''))
       \<and> filter is_feature_call (fst (compute_features M audio_path params)) = []
       \<and> fst (compute_features M audio_path params) = [Call_AudioFeatures audio_path (sample_rate params)]"
  using assms by (simp add: compute_features_def features_stage_def prepare_def construct_def)

text \<open>
  Claim C6 on the test double: \<open>song2\<close> decodes to the empty signal.
\<close>

theorem empty_signal_rejected_first_witness:
  "read_audio fake_module ''cliqueA/song2.mp3'' (sample_rate PROFILE) = Inr []
   \<and> snd (compute_features fake_module ''cliqueA/song2.mp3'' PROFILE) =
       Inl (IOError ''Empty or invalid audio recording file -cliqueA/song2.mp3-'')
   \<and> filter is_feature_call (fst (compute_features fake_module ''cliqueA/song2.mp3'' PROFILE)) = []"
proof -
  have h: "read_audio fake_module ''cliqueA/song2.mp3'' (sample_rate PROFILE) = Inr []"
    by (simp add: fake_module_def)
  from empty_signal_rejected_first [OF h] show ?thesis using h by simp
qed

text \<open>
  Claim C10. A path has fewer than two \<open>/\<close>-separated components exactly when it contains
  no \<open>/\<close>. For such a path \<open>compute_features\<close> never returns a dictionary, and when the
  audio decodes and every requested feature computes (lines 56-68 succeed) the exception
  is the IndexError of \<^verbatim>\<open>audio_path.split('/')[-2]\<close>. A successful return requires a \<open>/\<close> in
  the path.
\<close>

theorem bare_filename_index_error:
  "(length (str_split CHR ''/'' audio_path) < 2 \<longleftrightarrow> CHR ''/'' \<notin> set audio_path)
   \<and> (length (str_split CHR ''/'' audio_path) < 2 \<longrightarrow>
        (\<forall>d. snd (features_stage M audio_path params) = Inr d \<longrightarrow>
             snd (compute_features M audio_path params) = Inl IndexError)
        \<and> (\<forall>out_dict. snd (compute_features M audio_path params) \<noteq> Inr out_dict))
   \<and> (\<forall>out_dict. snd (compute_features M audio_path params) = Inr out_dict \<longrightarrow>
        CHR ''/'' \<in> set audio_path)"
proof -
  have ret: "CHR ''/'' \<in> set audio_path"
    if "snd (compute_features M audio_path params) = Inr out_dict" for out_dict
    using that unfolding compute_features_def
    by (auto dest!: snd_tbind_Inr simp: metadata_stage_def index_neg2_def str_split_short
        split: if_splits)
  have idx: "snd (compute_features M audio_path params) = Inl IndexError"
    if "snd (features_stage M audio_path params) = Inr d" "CHR ''/'' \<notin> set audio_path" for d
    using that unfolding compute_features_def
    by (cases "features_stage M audio_path params")
       (simp add: metadata_stage_def index_neg2_def str_split_short)
  show ?thesis using ret idx by (auto simp: str_split_short)
qed

text \<open>
  Claim C10 on the test double: the bare filename \<open>song1.mp3\<close> decodes, both features
  compute, and the call ends in IndexError.
\<close>

theorem bare_filename_index_error_witness:
  "length (str_split CHR ''/'' ''song1.mp3'') < 2
   \<and> (\<exists>d. snd (features_stage fake_module ''song1.mp3'' fake_profile) = Inr d)
   \<and> snd (compute_features fake_module ''song1.mp3'' fake_profile) = Inl IndexError"
proof -
  have h1: "length (str_split CHR ''/'' ''song1.mp3'') < 2" by simp
  have h2: "\<exists>d. snd (features_stage fake_module ''song1.mp3'' fake_profile) = Inr d"
    by (simp add: features_stage_def prepare_def construct_def trim_def downsample_def
        fake_module_def fake_profile_def PROFILE_def)
  from bare_filename_index_error [of "''song1.mp3''" fake_module fake_profile] h1 h2
  show ?thesis by blast
qed






section \<open>The order of the calls on the collaborator\<close>

lemma fst_tbind:
  "fst (tbind m f) = fst m @ (case snd m of Inl e \<Rightarrow> [] | Inr a \<Rightarrow> fst (f a))"
  by (cases m; cases "snd m") (auto simp: tbind_def split: prod.splits)

lemma snd_tbind:
  "snd (tbind m f) = (case snd m of Inl e \<Rightarrow> Inl e | Inr a \<Rightarrow> snd (f a))"
  by (cases m; cases "snd m") (auto simp: tbind_def split: prod.splits)

lemma compute_all_calls:
  "\<exists>fs. fst (compute_all M feature ms out_dict) = map Call_feature fs"
proof (induction ms arbitrary: out_dict)
  case Nil
  then show ?case by simp
next
  case (Cons m ms)
  show ?case
  proof (cases "getattr_method M m")
    case No_attribute
    then show ?thesis by simp
  next
    case Not_callable
    then show ?thesis by simp
  next
    case Some: (Method f)
    show ?thesis
    proof (cases "f feature")
      case (Inl e)
      then have "fst (compute_all M feature (m # ms) out_dict) = map Call_feature [m]"
        using Some by simp
      then show ?thesis ..
    next
      case (Inr v)
      from Cons.IH [of "out_dict(m \<mapsto> Feat v)"] obtain fs
        where "fst (compute_all M feature ms (out_dict(m \<mapsto> Feat v))) = map Call_feature fs" ..
      then have "fst (compute_all M feature (m # ms) out_dict) = map Call_feature (m # fs)"
        using Some Inr by simp
      then show ?thesis ..
    qed
  qed
qed

lemma fst_construct: "fst (construct M p params) = [Call_AudioFeatures p (sample_rate params)]"
  by (simp add: construct_def)

lemma fst_trim:
  "fst (trim M params feature) = [] \<or>
   (\<exists>t. endtime params = Some t \<and> t \<noteq> 0 \<and> fst (trim M params feature) = [Call_audio_slicer t])"
  by (simp add: trim_def split: option.splits)

lemma fst_downsample:
  "fst (downsample M params feature) =
     (if downsample_audio params \<and> downsample_factor params \<noteq> 0
      then [Call_resample_audio
              (real_of_int (sample_rate params) / real_of_int (downsample_factor params))]
      else [])"
  by (simp add: downsample_def Let_def)

lemma downsample_Inr:
  "snd (downsample M params feature) = Inr feature' \<Longrightarrow> downsample_audio params \<Longrightarrow>
   downsample_factor params \<noteq> 0"
  by (auto simp: downsample_def split: if_splits)

lemma compute_features_calls:
  "\<exists>ts rs fs.
     fst (compute_features M p params)
       = Call_AudioFeatures p (sample_rate params) # ts @ rs @ map Call_feature fs
     \<and> (ts = [] \<or> (\<exists>t. endtime params = Some t \<and> t \<noteq> 0 \<and> ts = [Call_audio_slicer t]))
     \<and> (rs = [] \<or> (downsample_audio params \<and> rs = [Call_resample_audio
            (real_of_int (sample_rate params) / real_of_int (downsample_factor params))]))
     \<and> (fs \<noteq> [] \<and> downsample_audio params \<longrightarrow> rs \<noteq> [])"
proof -
  let ?c = "Call_AudioFeatures p (sample_rate params)"
  let ?r = "Call_resample_audio
              (real_of_int (sample_rate params) / real_of_int (downsample_factor params))"
  have meta: "fst (compute_features M p params) = fst (features_stage M p params)"
    by (simp add: compute_features_def fst_tbind metadata_stage_def Let_def
        split: sum.splits)
  show ?thesis
  proof (cases "snd (construct M p params)")
    case (Inl e)
    then have "fst (compute_features M p params) = ?c # [] @ [] @ map Call_feature []"
      by (simp add: meta features_stage_def prepare_def fst_tbind snd_tbind fst_construct)
    then show ?thesis by blast
  next
    case f0: (Inr f0)
    show ?thesis
    proof (cases "snd (trim M params f0)")
      case (Inl e)
      then have "fst (compute_features M p params)
                 = ?c # fst (trim M params f0) @ [] @ map Call_feature []"
        using f0
        by (simp add: meta features_stage_def prepare_def fst_tbind snd_tbind fst_construct)
      then show ?thesis using fst_trim [of M params f0] by blast
    next
      case f1: (Inr f1)
      show ?thesis
      proof (cases "snd (downsample M params f1)")
        case (Inl e)
        then have "fst (compute_features M p params)
                   = ?c # fst (trim M params f0) @ fst (downsample M params f1) @ map Call_feature []"
          using f0 f1
          by (simp add: meta features_stage_def prepare_def fst_tbind snd_tbind fst_construct)
        moreover have "fst (downsample M params f1) = [] \<or>
                       (downsample_audio params \<and> fst (downsample M params f1) = [?r])"
          by (simp add: fst_downsample)
        ultimately show ?thesis using fst_trim [of M params f0] by blast
      next
        case f2: (Inr f2)
        obtain fs where fs: "fst (compute_all M f2 (features params) Map.empty) = map Call_feature fs"
          using compute_all_calls by blast
        have "fst (compute_features M p params)
                   = ?c # fst (trim M params f0) @ fst (downsample M params f1) @ map Call_feature fs"
          using f0 f1 f2 fs
          by (simp add: meta features_stage_def prepare_def fst_tbind snd_tbind fst_construct)
        moreover have "fst (downsample M params f1) = [] \<or>
                       (downsample_audio params \<and> fst (downsample M params f1) = [?r])"
          by (simp add: fst_downsample)
        moreover have "downsample_audio params \<longrightarrow> fst (downsample M params f1) \<noteq> []"
          using downsample_Inr [OF f2] by (simp add: fst_downsample)
        ultimately show ?thesis using fst_trim [of M params f0] by blast
      qed
    qed
  qed
qed

lemma compute_all_other:
  "snd (compute_all M feature ms out_dict) = Inr d \<Longrightarrow> k \<notin> set ms \<Longrightarrow> d k = out_dict k"
proof (induction ms arbitrary: out_dict)
  case Nil
  then show ?case by simp
next
  case (Cons m ms)
  then show ?case
    by (auto split: attribute.splits sum.splits)
qed

lemma compute_all_values:
  "snd (compute_all M feature ms out_dict) = Inr d \<Longrightarrow>
   \<forall>m\<in>set ms. \<exists>f v. getattr_method M m = Method f \<and> f feature = Inr v \<and> d m = Some (Feat v)"
proof (induction ms arbitrary: out_dict)
  case Nil
  then show ?case by simp
next
  case (Cons m ms)
  from Cons.prems obtain f v
    where f: "getattr_method M m = Method f" "f feature = Inr v"
      and rest: "snd (compute_all M feature ms (out_dict(m \<mapsto> Feat v))) = Inr d"
    by (auto split: attribute.splits sum.splits)
  have tail: "\<forall>m\<in>set ms. \<exists>f v. getattr_method M m = Method f \<and> f feature = Inr v
                \<and> d m = Some (Feat v)"
    by (rule Cons.IH [OF rest])
  have "d m = Some (Feat v)" if "m \<notin> set ms"
    using compute_all_other [OF rest that] by simp
  with f tail have "\<exists>f v. getattr_method M m = Method f \<and> f feature = Inr v \<and> d m = Some (Feat v)"
    by (cases "m \<in> set ms") auto
  with tail show ?case by simp
qed

lemma compute_features_on_prepared:
  assumes "prepare M p params = (cs, Inr feature)"
  shows "fst (compute_features M p params)
           = cs @ fst (compute_all M feature (features params) Map.empty)"
    and "snd (features_stage M p params) = snd (compute_all M feature (features params) Map.empty)"
    and "snd (compute_features M p params) = Inr d \<Longrightarrow>
         \<forall>m\<in>set (features params). m \<noteq> ''track_id'' \<and> m \<noteq> ''label'' \<longrightarrow>
           (\<exists>f v. getattr_method M m = Method f \<and> f feature = Inr v \<and> d m = Some (Feat v))"
proof -
  have meta: "fst (compute_features M p params) = fst (features_stage M p params)"
    by (simp add: compute_features_def fst_tbind metadata_stage_def Let_def
        split: sum.splits)
  show "fst (compute_features M p params)
           = cs @ fst (compute_all M feature (features params) Map.empty)"
    by (simp add: meta features_stage_def assms)
  show st: "snd (features_stage M p params)
        = snd (compute_all M feature (features params) Map.empty)"
    by (simp add: features_stage_def assms)
  assume ret: "snd (compute_features M p params) = Inr d"
  then obtain d0 where d0: "snd (features_stage M p params) = Inr d0"
    and md: "snd (metadata_stage p params d0) = Inr d"
    unfolding compute_features_def by (auto dest!: snd_tbind_Inr)
  from md obtain t l where d: "d = d0(''track_id'' \<mapsto> Str t, ''label'' \<mapsto> Str l)"
    by (auto simp: metadata_stage_def Let_def split: sum.splits)
  from d0 st have "snd (compute_all M feature (features params) Map.empty) = Inr d0" by simp
  from compute_all_values [OF this]
  show "\<forall>m\<in>set (features params). m \<noteq> ''track_id'' \<and> m \<noteq> ''label'' \<longrightarrow>
           (\<exists>f v. getattr_method M m = Method f \<and> f feature = Inr v \<and> d m = Some (Feat v))"
    unfolding d by auto
qed

lemma prepare_resampled:
  assumes "downsample_audio params"
    and "construct M p params = (c0, Inr f0)" and "trim M params f0 = (ts, Inr f1)"
    and "downsample_factor params \<noteq> 0"
  shows "prepare M p params
           = (c0 @ ts @ [Call_resample_audio
                (real_of_int (sample_rate params) / real_of_int (downsample_factor params))],
              (case resample_audio M f1
                 (real_of_int (sample_rate params) / real_of_int (downsample_factor params)) of
                 Inl e \<Rightarrow> Inl e
               | Inr v \<Rightarrow> Inr (f1\<lparr>audio_vector := v\<rparr>)))"
  using assms by (simp add: prepare_def downsample_def Let_def)

text \<open>
  Claim C7. With \<open>downsample_audio\<close> set, the calls that \<open>compute_features\<close> makes on the
  collaborator are, in this order: the construction, at most one trim, at most one
  resampling to \<open>sample_rate / downsample_factor\<close>, then feature methods; and a feature
  method is called only after the resampling. When the audio decodes, the trim (if any)
  succeeds and the factor is not zero, the resampling is applied to the trimmed object.
  When the resampling returns, the feature loop runs on the object that holds the
  resampled signal: its calls and its result are those of the loop on that object, and
  every feature value of a returned dictionary is the method's value on that object.
\<close>

theorem resample_after_trim_before_features:
  assumes "downsample_audio params"
  shows "(\<exists>ts rs fs.
            fst (compute_features M p params)
              = Call_AudioFeatures p (sample_rate params) # ts @ rs @ map Call_feature fs
            \<and> (ts = [] \<or> (\<exists>t. endtime params = Some t \<and> t \<noteq> 0 \<and> ts = [Call_audio_slicer t]))
            \<and> (rs = [] \<or> rs = [Call_resample_audio (real_of_int (sample_rate params) / real_of_int (downsample_factor params))])
            \<and> (fs \<noteq> [] \<longrightarrow> rs = [Call_resample_audio (real_of_int (sample_rate params) / real_of_int (downsample_factor params))]))
       \<and> (\<forall>c0 f0 ts f1.
            construct M p params = (c0, Inr f0) \<and> trim M params f0 = (ts, Inr f1)
              \<and> downsample_factor params \<noteq> 0
            \<longrightarrow> prepare M p params
                  = (c0 @ ts @ [Call_resample_audio (real_of_int (sample_rate params) / real_of_int (downsample_factor params))],
                     (case resample_audio M f1 (real_of_int (sample_rate params) / real_of_int (downsample_factor params)) of
                        Inl e \<Rightarrow> Inl e
                      | Inr v \<Rightarrow> Inr (f1\<lparr>audio_vector := v\<rparr>))))
       \<and> (\<forall>c0 f0 ts f1 v.
            construct M p params = (c0, Inr f0) \<and> trim M params f0 = (ts, Inr f1)
              \<and> downsample_factor params \<noteq> 0 \<and> resample_audio M f1 (real_of_int (sample_rate params) / real_of_int (downsample_factor params)) = Inr v
            \<longrightarrow> fst (compute_features M p params)
                  = c0 @ ts @ [Call_resample_audio (real_of_int (sample_rate params) / real_of_int (downsample_factor params))]
                    @ fst (compute_all M (f1\<lparr>audio_vector := v\<rparr>) (features params) Map.empty)
                \<and> snd (features_stage M p params)
                  = snd (compute_all M (f1\<lparr>audio_vector := v\<rparr>) (features params) Map.empty)
                \<and> (\<forall>d. snd (compute_features M p params) = Inr d \<longrightarrow>
                      (\<forall>m\<in>set (features params). m \<noteq> ''track_id'' \<and> m \<noteq> ''label'' \<longrightarrow>
                         (\<exists>f val. getattr_method M m = Method f
                            \<and> f (f1\<lparr>audio_vector := v\<rparr>) = Inr val
                            \<and> d m = Some (Feat val)))))"
proof (intro conjI allI impI)
  from compute_features_calls [of M p params] obtain ts rs fs
    where "fst (compute_features M p params)
             = Call_AudioFeatures p (sample_rate params) # ts @ rs @ map Call_feature fs"
      and "ts = [] \<or> (\<exists>t. endtime params = Some t \<and> t \<noteq> 0 \<and> ts = [Call_audio_slicer t])"
      and "rs = [] \<or> (downsample_audio params \<and> rs = [Call_resample_audio (real_of_int (sample_rate params) / real_of_int (downsample_factor params))])"
      and "fs \<noteq> [] \<and> downsample_audio params \<longrightarrow> rs \<noteq> []"
    by blast
  with assms show "\<exists>ts rs fs.
            fst (compute_features M p params)
              = Call_AudioFeatures p (sample_rate params) # ts @ rs @ map Call_feature fs
            \<and> (ts = [] \<or> (\<exists>t. endtime params = Some t \<and> t \<noteq> 0 \<and> ts = [Call_audio_slicer t]))
            \<and> (rs = [] \<or> rs = [Call_resample_audio (real_of_int (sample_rate params) / real_of_int (downsample_factor params))])
            \<and> (fs \<noteq> [] \<longrightarrow> rs = [Call_resample_audio (real_of_int (sample_rate params) / real_of_int (downsample_factor params))])"
    by blast
next
  fix c0 f0 ts f1
  assume "construct M p params = (c0, Inr f0) \<and> trim M params f0 = (ts, Inr f1)
            \<and> downsample_factor params \<noteq> 0"
  then show "prepare M p params
                  = (c0 @ ts @ [Call_resample_audio (real_of_int (sample_rate params) / real_of_int (downsample_factor params))],
                     (case resample_audio M f1 (real_of_int (sample_rate params) / real_of_int (downsample_factor params)) of
                        Inl e \<Rightarrow> Inl e
                      | Inr v \<Rightarrow> Inr (f1\<lparr>audio_vector := v\<rparr>)))"
    using prepare_resampled [OF assms] by blast
next
  fix c0 f0 ts f1 v
  assume a: "construct M p params = (c0, Inr f0) \<and> trim M params f0 = (ts, Inr f1)
              \<and> downsample_factor params \<noteq> 0 \<and> resample_audio M f1 (real_of_int (sample_rate params) / real_of_int (downsample_factor params)) = Inr v"
  then have prep: "prepare M p params
                     = (c0 @ ts @ [Call_resample_audio (real_of_int (sample_rate params) / real_of_int (downsample_factor params))], Inr (f1\<lparr>audio_vector := v\<rparr>))"
    using prepare_resampled [OF assms, of M p c0 f0 ts f1] by simp
  note on = compute_features_on_prepared [OF prep]
  show "fst (compute_features M p params)
                  = c0 @ ts @ [Call_resample_audio (real_of_int (sample_rate params) / real_of_int (downsample_factor params))]
                    @ fst (compute_all M (f1\<lparr>audio_vector := v\<rparr>) (features params) Map.empty)"
    using on(1) by simp
  show "snd (features_stage M p params)
                  = snd (compute_all M (f1\<lparr>audio_vector := v\<rparr>) (features params) Map.empty)"
    by (rule on(2))
  fix d
  assume "snd (compute_features M p params) = Inr d"
  then show "\<forall>m\<in>set (features params). m \<noteq> ''track_id'' \<and> m \<noteq> ''label'' \<longrightarrow>
               (\<exists>f val. getattr_method M m = Method f
                  \<and> f (f1\<lparr>audio_vector := v\<rparr>) = Inr val
                  \<and> d m = Some (Feat val))"
    by (rule on(3))
qed

text \<open>
  Claim C7 on the test double, with a trim to four samples and downsampling: the calls
  come in the order construct, trim, resample to 22050, features; the features see the
  signal \<open>[1, 3]\<close>, the resampling of the trimmed \<open>[1, 2, 3, 4]\<close> (the other order would
  leave \<open>[1, 3, 5]\<close>), so \<open>hpcp\<close>, the length, is 2 and \<open>mfcc_htk\<close>, the sum, is 4.
\<close>

theorem resample_after_trim_before_features_witness:
  "downsample_audio (fake_profile\<lparr>endtime := Some 4, downsample_audio := True\<rparr>)
   \<and> fst (compute_features fake_module ''cliqueA/song1.mp3''
            (fake_profile\<lparr>endtime := Some 4, downsample_audio := True\<rparr>))
       = [Call_AudioFeatures ''cliqueA/song1.mp3'' 44100, Call_audio_slicer 4,
          Call_resample_audio 22050, Call_feature ''hpcp'', Call_feature ''mfcc_htk'']
   \<and> prepare fake_module ''cliqueA/song1.mp3''
         (fake_profile\<lparr>endtime := Some 4, downsample_audio := True\<rparr>)
       = ([Call_AudioFeatures ''cliqueA/song1.mp3'' 44100, Call_audio_slicer 4,
           Call_resample_audio 22050],
          Inr \<lparr>audio_file = ''cliqueA/song1.mp3'', fs = 44100, audio_vector = [1, 3]\<rparr>)
   \<and> (\<exists>d. snd (compute_features fake_module ''cliqueA/song1.mp3''
                  (fake_profile\<lparr>endtime := Some 4, downsample_audio := True\<rparr>)) = Inr d
          \<and> d ''hpcp'' = Some (Feat 2) \<and> d ''mfcc_htk'' = Some (Feat 4))"
  using resample_after_trim_before_features
    [of "fake_profile\<lparr>endtime := Some 4, downsample_audio := True\<rparr>" fake_module
        "''cliqueA/song1.mp3''"]
  by (simp add: cf_eval)

section \<open>Properties of the runner\<close>

lemma audio_files_of_append:
  "audio_files_of (xs @ ys) = audio_files_of xs @ audio_files_of ys"
  by (induction xs rule: audio_files_of.induct) auto

lemma audio_files_of_features: "audio_files_of (map Call_feature ms) = []"
  by (induction ms) auto

lemma audio_files_of_compute_features:
  "audio_files_of (fst (compute_features M p params)) = [p]"
proof -
  from compute_features_calls [of M p params] obtain ts rs fs
    where c: "fst (compute_features M p params)
             = Call_AudioFeatures p (sample_rate params) # ts @ rs @ map Call_feature fs"
      and ts: "ts = [] \<or> (\<exists>t. endtime params = Some t \<and> t \<noteq> 0 \<and> ts = [Call_audio_slicer t])"
      and rs: "rs = [] \<or> (downsample_audio params \<and> rs = [Call_resample_audio
            (real_of_int (sample_rate params) / real_of_int (downsample_factor params))])"
    by blast
  from ts have "audio_files_of ts = []" by auto
  moreover from rs have "audio_files_of rs = []" by auto
  ultimately show ?thesis
    by (simp add: c audio_files_of_append audio_files_of_features)
qed

lemma try_body_calls:
  "try_body env feature_dir params d song = (cs, d', written, raised) \<Longrightarrow>
   cs = fst (compute_features (features_py env) song params)"
  by (auto simp: try_body_def Let_def split: prod.splits sum.splits if_splits)

lemma try_body_written:
  "try_body env feature_dir params d song = (cs, d', written, raised) \<Longrightarrow>
   (raised = None \<and> length written = 1) \<or> (raised \<noteq> None \<and> written = [])"
  by (auto simp: try_body_def Let_def split: prod.splits sum.splits if_splits)

lemma process_song_fields:
  assumes "try_body env feature_dir params (disk st) song = (cs, d', written, raised)"
  shows "disk (process_song env input_txt_file feature_dir params st song) = d'"
    and "calls (process_song env input_txt_file feature_dir params st song) = calls st @ cs"
    and "saved (process_song env input_txt_file feature_dir params st song) = saved st @ written"
    and "ERRORS (process_song env input_txt_file feature_dir params st song)
         = ERRORS st @ (case raised of None \<Rightarrow> [] | Some e \<Rightarrow> [input_txt_file, song])"
    and "LOG_FILE (process_song env input_txt_file feature_dir params st song)
         = LOG_FILE st @ (case raised of None \<Rightarrow> [] | Some e \<Rightarrow> [Debug_skipping song])"
    and "bar_index (process_song env input_txt_file feature_dir params st song) = Suc (bar_index st)"
    and "bar_max (process_song env input_txt_file feature_dir params st song) = bar_max st"
    and "progress (process_song env input_txt_file feature_dir params st song)
         = progress st @ [(Suc (bar_index st), bar_max st)]"
  using assms by (simp_all add: process_song_def bar_next_def Let_def split: option.splits)

lemma process_songs_progress:
  "progress (process_songs env input_txt_file feature_dir params st data)
     = progress st @ map (\<lambda>i. (Suc i, bar_max st)) [bar_index st..<bar_index st + length data]
   \<and> bar_index (process_songs env input_txt_file feature_dir params st data)
     = bar_index st + length data
   \<and> bar_max (process_songs env input_txt_file feature_dir params st data) = bar_max st"
proof (induction data arbitrary: st)
  case Nil
  then show ?case by simp
next
  case (Cons song data)
  obtain cs d' written raised
    where tb: "try_body env feature_dir params (disk st) song = (cs, d', written, raised)"
    by (cases "try_body env feature_dir params (disk st) song") auto
  note f = process_song_fields [OF tb, of input_txt_file]
  have "[bar_index st..<bar_index st + length (song # data)]
        = bar_index st # [Suc (bar_index st)..<Suc (bar_index st) + length data]"
    by (subst upt_rec) simp
  then show ?case
    using Cons.IH [of "process_song env input_txt_file feature_dir params st song"]
    by (simp add: f)
qed

lemma process_songs_calls:
  "audio_files_of (calls (process_songs env input_txt_file feature_dir params st data))
     = audio_files_of (calls st) @ data"
proof (induction data arbitrary: st)
  case Nil
  then show ?case by simp
next
  case (Cons song data)
  obtain cs d' written raised
    where tb: "try_body env feature_dir params (disk st) song = (cs, d', written, raised)"
    by (cases "try_body env feature_dir params (disk st) song") auto
  note f = process_song_fields [OF tb, of input_txt_file]
  have "audio_files_of cs = [song]"
    using try_body_calls [OF tb] by (simp add: audio_files_of_compute_features)
  then show ?case
    using Cons.IH [of "process_song env input_txt_file feature_dir params st song"]
    by (simp add: f audio_files_of_append)
qed

lemma process_songs_errors:
  "ERRORS (process_songs env input_txt_file feature_dir params st data)
     = ERRORS st @ concat (map (\<lambda>song. [input_txt_file, song])
                             (failed_songs env feature_dir params (disk st) data))
   \<and> LOG_FILE (process_songs env input_txt_file feature_dir params st data)
     = LOG_FILE st @ map Debug_skipping (failed_songs env feature_dir params (disk st) data)
   \<and> length (saved (process_songs env input_txt_file feature_dir params st data))
       + length (failed_songs env feature_dir params (disk st) data)
     = length (saved st) + length data"
proof (induction data arbitrary: st)
  case Nil
  then show ?case by simp
next
  case (Cons song data)
  obtain cs d' written raised
    where tb: "try_body env feature_dir params (disk st) song = (cs, d', written, raised)"
    by (cases "try_body env feature_dir params (disk st) song") auto
  note f = process_song_fields [OF tb, of input_txt_file]
  from try_body_written [OF tb] show ?case
    using Cons.IH [of "process_song env input_txt_file feature_dir params st song"]
    by (auto simp: f tb)
qed

lemma run_nonempty:
  assumes "read_txt_file env (disk st) input_txt_file = Inr lines"
    and "filter (os_path_exists env (disk st)) lines \<noteq> []"
  shows "compute_features_from_list_file env input_txt_file feature_dir params st
         = ((process_songs env input_txt_file feature_dir params
               (st\<lparr>LOG_FILE := LOG_FILE st @ [Info_extracting input_txt_file],
                   bar_index := 0,
                   bar_max := length (filter (os_path_exists env (disk st)) lines),
                   bar_finished := False\<rparr>)
               (filter (os_path_exists env (disk st)) lines))
             \<lparr>bar_finished := True,
              LOG_FILE := LOG_FILE (process_songs env input_txt_file feature_dir params
               (st\<lparr>LOG_FILE := LOG_FILE st @ [Info_extracting input_txt_file],
                   bar_index := 0,
                   bar_max := length (filter (os_path_exists env (disk st)) lines),
                   bar_finished := False\<rparr>)
               (filter (os_path_exists env (disk st)) lines))
                @ [Info_finished (time_monotonic env - time_time env)]\<rparr>, None)"
  using assms by (simp add: compute_features_from_list_file_def Let_def)

lemma run_empty:
  assumes "read_txt_file env (disk st) input_txt_file = Inr lines"
    and "filter (os_path_exists env (disk st)) lines = []"
  shows "compute_features_from_list_file env input_txt_file feature_dir params st
         = (st\<lparr>LOG_FILE := LOG_FILE st @ [Info_extracting input_txt_file,
                                           Debug_empty_collection input_txt_file]\<rparr>,
            Some (IOError (''Empty collection txt file -'' @ input_txt_file @ ''- !'')))"
  using assms by (simp add: compute_features_from_list_file_def Let_def)

lemma try_body_read_txt_file:
  "try_body (env\<lparr>read_txt_file := r\<rparr>) = try_body env"
  by (intro ext) (simp add: try_body_def Let_def split: prod.splits sum.splits)

lemma process_songs_read_txt_file:
  "process_songs (env\<lparr>read_txt_file := r\<rparr>) input_txt_file feature_dir params st data
   = process_songs env input_txt_file feature_dir params st data"
  by (induction data arbitrary: st) (simp_all add: process_song_def try_body_read_txt_file)

lemma compute_features_Inr_index:
  "snd (compute_features M p params) = Inr d \<Longrightarrow>
   \<exists>work_id. index_neg2 (str_split CHR ''/'' p) = Inr work_id"
  unfolding compute_features_def
  by (auto dest!: snd_tbind_Inr simp: metadata_stage_def Let_def split: sum.splits)

lemma try_body_success:
  "try_body env feature_dir params d song = (cs, d', written, None) \<Longrightarrow>
   \<exists>dct work_id.
     snd (compute_features (features_py env) song params) = Inr dct
     \<and> index_neg2 (str_split CHR ''/'' song) = Inr work_id
     \<and> written = [(feature_dir @ work_id @ ''/''
                      @ str_replace (input_audio_format params) [] (os_path_basename song)
                      @ ''.h5'', dct)]"
  by (auto simp: try_body_def Let_def split: prod.splits sum.splits if_splits)

lemma try_body_extract_fails:
  "snd (compute_features (features_py env) song params) = Inl e \<Longrightarrow>
   try_body env feature_dir params d song
     = (fst (compute_features (features_py env) song params), d, [], Some e)"
  by (cases "compute_features (features_py env) song params") (simp add: try_body_def)

lemma try_body_saves:
  assumes "snd (compute_features (features_py env) song params) = Inr dct"
    and "index_neg2 (str_split CHR ''/'' song) = Inr work_id"
    and "(if \<not> os_path_exists env d (feature_dir @ work_id @ ''/'')
          then os_makedirs env d (feature_dir @ work_id @ ''/'') else Inr d) = Inr d1"
    and "dd_io_save env d1
           (feature_dir @ work_id @ ''/''
              @ str_replace (input_audio_format params) [] (os_path_basename song) @ ''.h5'')
           dct = Inr d2"
  shows "try_body env feature_dir params d song
         = (fst (compute_features (features_py env) song params), d2,
            [(feature_dir @ work_id @ ''/''
                @ str_replace (input_audio_format params) [] (os_path_basename song) @ ''.h5'',
              dct)], None)"
  using assms
  by (cases "compute_features (features_py env) song params")
     (simp add: try_body_def Let_def split: if_splits)

lemma try_body_no_fs_error:
  assumes "\<forall>d p. \<not> isl (os_makedirs env d p)" and "\<forall>d p x. \<not> isl (dd_io_save env d p x)"
    and "try_body env feature_dir params d song = (cs, d', written, raised)"
  shows "raised = None \<longleftrightarrow> \<not> isl (snd (compute_features (features_py env) song params))"
proof (cases "snd (compute_features (features_py env) song params)")
  case (Inl e)
  from try_body_extract_fails [OF this, of feature_dir d] assms(3) have "raised = Some e" by simp
  with Inl show ?thesis by simp
next
  case (Inr dct)
  from compute_features_Inr_index [OF this] obtain work_id
    where w: "index_neg2 (str_split CHR ''/'' song) = Inr work_id" ..
  let ?dir = "feature_dir @ work_id @ ''/''"
  obtain d1 where d1: "(if \<not> os_path_exists env d ?dir then os_makedirs env d ?dir else Inr d)
                       = Inr d1"
  proof -
    have "\<not> isl (os_makedirs env d ?dir)" using assms(1) by blast
    then obtain b where "os_makedirs env d ?dir = Inr b"
      by (cases "os_makedirs env d ?dir") auto
    then have "\<exists>d1. (if \<not> os_path_exists env d ?dir then os_makedirs env d ?dir else Inr d)
                 = Inr d1"
      by simp
    then show ?thesis using that by blast
  qed
  let ?t = "feature_dir @ work_id @ ''/''
              @ str_replace (input_audio_format params) [] (os_path_basename song) @ ''.h5''"
  obtain d2 where d2: "dd_io_save env d1 ?t dct = Inr d2"
  proof -
    have "\<not> isl (dd_io_save env d1 ?t dct)" using assms(2) by blast
    then show ?thesis using that by (cases "dd_io_save env d1 ?t dct") auto
  qed
  from try_body_saves [OF Inr w d1 d2] assms(3) have "raised = None" by simp
  with Inr show ?thesis by simp
qed

lemma process_songs_saved:
  "saved (process_songs env input_txt_file feature_dir params st data)
     = saved st @ written_artifacts env feature_dir params (disk st) data
   \<and> disk (process_songs env input_txt_file feature_dir params st data)
     = disk_after env feature_dir params (disk st) data"
proof (induction data arbitrary: st)
  case Nil
  then show ?case by simp
next
  case (Cons song data)
  obtain cs d' written raised
    where tb: "try_body env feature_dir params (disk st) song = (cs, d', written, raised)"
    by (cases "try_body env feature_dir params (disk st) song") auto
  note f = process_song_fields [OF tb, of input_txt_file]
  show ?case
    using Cons.IH [of "process_song env input_txt_file feature_dir params st song"]
    by (simp add: f tb)
qed

lemma process_songs_foldl:
  "process_songs env input_txt_file feature_dir params st data
   = foldl (process_song env input_txt_file feature_dir params) st data"
  by (induction data arbitrary: st) simp_all

lemma failed_songs_subseq: "subseq (failed_songs env feature_dir params d data) data"
proof (induction data arbitrary: d)
  case Nil
  then show ?case by simp
next
  case (Cons song data)
  obtain cs d' written raised
    where tb: "try_body env feature_dir params d song = (cs, d', written, raised)"
    by (cases "try_body env feature_dir params d song") auto
  show ?case using Cons.IH [of d'] by (cases raised) (auto simp: tb intro: list_emb.intros)
qed

lemma written_failed_length:
  "length (written_artifacts env feature_dir params d data)
     + length (failed_songs env feature_dir params d data) = length data"
proof (induction data arbitrary: d)
  case Nil
  then show ?case by simp
next
  case (Cons song data)
  obtain cs d' written raised
    where tb: "try_body env feature_dir params d song = (cs, d', written, raised)"
    by (cases "try_body env feature_dir params d song") auto
  from try_body_written [OF tb] show ?case using Cons.IH [of d'] by (auto simp: tb)
qed

lemma extraction_failures_recorded:
  "\<forall>song\<in>set data. isl (snd (compute_features (features_py env) song params))
     \<longrightarrow> song \<in> set (failed_songs env feature_dir params d data)"
proof (induction data arbitrary: d)
  case Nil
  then show ?case by simp
next
  case (Cons song data)
  obtain cs d' written raised
    where tb: "try_body env feature_dir params d song = (cs, d', written, raised)"
    by (cases "try_body env feature_dir params d song") auto
  have "song \<in> set (failed_songs env feature_dir params d (song # data))"
    if "isl (snd (compute_features (features_py env) song params))"
  proof -
    from that obtain e where "snd (compute_features (features_py env) song params) = Inl e"
      by (cases "snd (compute_features (features_py env) song params)") auto
    from try_body_extract_fails [OF this, of feature_dir d] show ?thesis by simp
  qed
  then show ?case using Cons.IH [of d'] by (auto simp: tb)
qed

lemma written_artifacts_origin:
  "\<forall>(target, dct)\<in>set (written_artifacts env feature_dir params d data).
     \<exists>song\<in>set data. \<exists>work_id.
       snd (compute_features (features_py env) song params) = Inr dct
       \<and> index_neg2 (str_split CHR ''/'' song) = Inr work_id
       \<and> target = feature_dir @ work_id @ ''/''
                    @ str_replace (input_audio_format params) [] (os_path_basename song)
                    @ ''.h5''"
proof (induction data arbitrary: d)
  case Nil
  then show ?case by simp
next
  case (Cons song data)
  obtain cs d' written raised
    where tb: "try_body env feature_dir params d song = (cs, d', written, raised)"
    by (cases "try_body env feature_dir params d song") auto
  have here: "\<forall>(target, dct)\<in>set written.
     \<exists>work_id.
       snd (compute_features (features_py env) song params) = Inr dct
       \<and> index_neg2 (str_split CHR ''/'' song) = Inr work_id
       \<and> target = feature_dir @ work_id @ ''/''
                    @ str_replace (input_audio_format params) [] (os_path_basename song)
                    @ ''.h5''"
  proof (cases raised)
    case None
    from try_body_success [OF tb [unfolded None]] show ?thesis by auto
  next
    case (Some e)
    with try_body_written [OF tb] show ?thesis by simp
  qed
  show ?case using here Cons.IH [of d'] by (auto simp: tb)
qed

lemma no_fs_error_exact:
  assumes "\<forall>d p. \<not> isl (os_makedirs env d p)" and "\<forall>d p x. \<not> isl (dd_io_save env d p x)"
  shows "failed_songs env feature_dir params d data
           = filter (\<lambda>song. isl (snd (compute_features (features_py env) song params))) data
       \<and> list_all2 (\<lambda>(target, dct) song. \<exists>work_id.
              snd (compute_features (features_py env) song params) = Inr dct
              \<and> index_neg2 (str_split CHR ''/'' song) = Inr work_id
              \<and> target = feature_dir @ work_id @ ''/''
                           @ str_replace (input_audio_format params) [] (os_path_basename song)
                           @ ''.h5'')
           (written_artifacts env feature_dir params d data)
           (filter (\<lambda>song. \<not> isl (snd (compute_features (features_py env) song params))) data)"
proof (induction data arbitrary: d)
  case Nil
  then show ?case by simp
next
  case (Cons song data)
  obtain cs d' written raised
    where tb: "try_body env feature_dir params d song = (cs, d', written, raised)"
    by (cases "try_body env feature_dir params d song") auto
  note iff = try_body_no_fs_error [OF assms tb]
  show ?case
  proof (cases raised)
    case None
    from try_body_success [OF tb [unfolded None]] None iff show ?thesis
      using Cons.IH [of d'] by (auto simp: tb)
  next
    case (Some e)
    with try_body_written [OF tb] iff show ?thesis
      using Cons.IH [of d'] by (auto simp: tb)
  qed
qed

lemma run_fields:
  assumes "read_txt_file env (disk st) input_txt_file = Inr lines"
  shows "ERRORS (fst (compute_features_from_list_file env input_txt_file feature_dir params st))
           = ERRORS st @ concat (map (\<lambda>song. [input_txt_file, song])
                                   (failed_songs env feature_dir params (disk st) (filter (os_path_exists env (disk st)) lines)))"
    and "saved (fst (compute_features_from_list_file env input_txt_file feature_dir params st)) = saved st @ written_artifacts env feature_dir params (disk st) (filter (os_path_exists env (disk st)) lines)"
    and "disk (fst (compute_features_from_list_file env input_txt_file feature_dir params st)) = disk_after env feature_dir params (disk st) (filter (os_path_exists env (disk st)) lines)"
proof -
  let ?data = "(filter (os_path_exists env (disk st)) lines)"
  let ?st2 = "st\<lparr>LOG_FILE := LOG_FILE st @ [Info_extracting input_txt_file],
                 bar_index := 0, bar_max := length ?data, bar_finished := False\<rparr>"
  have "ERRORS (fst (compute_features_from_list_file env input_txt_file feature_dir params st))
           = ERRORS st @ concat (map (\<lambda>song. [input_txt_file, song])
                                   (failed_songs env feature_dir params (disk st) ?data))
      \<and> saved (fst (compute_features_from_list_file env input_txt_file feature_dir params st)) = saved st @ written_artifacts env feature_dir params (disk st) ?data
      \<and> disk (fst (compute_features_from_list_file env input_txt_file feature_dir params st)) = disk_after env feature_dir params (disk st) ?data"
  proof (cases "?data = []")
    case True
    then show ?thesis by (simp add: run_empty [OF assms True])
  next
    case False
    from process_songs_errors [of env input_txt_file feature_dir params ?st2 ?data]
      process_songs_saved [of env input_txt_file feature_dir params ?st2 ?data]
    show ?thesis by (simp add: run_nonempty [OF assms False])
  qed
  then show "ERRORS (fst (compute_features_from_list_file env input_txt_file feature_dir params st))
           = ERRORS st @ concat (map (\<lambda>song. [input_txt_file, song])
                                   (failed_songs env feature_dir params (disk st) (filter (os_path_exists env (disk st)) lines)))"
    and "saved (fst (compute_features_from_list_file env input_txt_file feature_dir params st)) = saved st @ written_artifacts env feature_dir params (disk st) (filter (os_path_exists env (disk st)) lines)"
    and "disk (fst (compute_features_from_list_file env input_txt_file feature_dir params st)) = disk_after env feature_dir params (disk st) (filter (os_path_exists env (disk st)) lines)"
    by simp_all
qed

lemma foldl_process_song_disk:
  "disk (foldl (process_song env input_txt_file feature_dir params) st data)
   = disk_after env feature_dir params (disk st) data"
  using process_songs_saved [of env input_txt_file feature_dir params st data]
  by (simp add: process_songs_foldl)

lemma process_song_disk_saved:
  assumes "snd (compute_features (features_py env) song params) = Inr dct"
    and "index_neg2 (str_split CHR ''/'' song) = Inr work_id"
    and "(if \<not> os_path_exists env (disk st0) (feature_dir @ work_id @ ''/'')
          then os_makedirs env (disk st0) (feature_dir @ work_id @ ''/'')
          else Inr (disk st0)) = Inr d1"
    and "dd_io_save env d1 (feature_dir @ work_id @ ''/''
                        @ str_replace (input_audio_format params) [] (os_path_basename song)
                        @ ''.h5'') dct = Inr d2"
  shows "disk (process_song env input_txt_file feature_dir params st0 song) = d2"
  using process_song_fields(1) [OF try_body_saves [OF assms]] .

lemma process_song_disk_failed:
  assumes "snd (compute_features (features_py env) song params) = Inl e"
  shows "disk (process_song env input_txt_file feature_dir params st0 song) = disk st0"
  using process_song_fields(1) [OF try_body_extract_fails [OF assms]] .

text \<open>The run of the test double on \<open>list.txt\<close>: the second existing path fails.\<close>

lemma fake_existing:
  "read_txt_file fake_env (disk fake_state) ''list.txt''
     = Inr [''cliqueA/song1.mp3'', ''cliqueA/missing.mp3'', ''cliqueA/song2.mp3'',
            ''cliqueB/song4.mp3'']"
  "filter (os_path_exists fake_env (disk fake_state))
     [''cliqueA/song1.mp3'', ''cliqueA/missing.mp3'', ''cliqueA/song2.mp3'', ''cliqueB/song4.mp3'']
   = [''cliqueA/song1.mp3'', ''cliqueA/song2.mp3'', ''cliqueB/song4.mp3'']"
  by (simp_all add: fake_env_def fake_state_def)

lemma fake_failed_songs:
  "failed_songs fake_env ''features/'' fake_profile (disk fake_state)
     [''cliqueA/song1.mp3'', ''cliqueA/song2.mp3'', ''cliqueB/song4.mp3'']
   = [''cliqueA/song2.mp3'']"
  by (simp add: try_body_def cf_eval fake_env_def fake_state_def Let_def)

lemma fake_written_artifacts:
  "map fst (written_artifacts fake_env ''features/'' fake_profile (disk fake_state)
              [''cliqueA/song1.mp3'', ''cliqueA/song2.mp3'', ''cliqueB/song4.mp3''])
   = [''features/cliqueA/song1.h5'', ''features/cliqueB/song4.h5'']"
  by (simp add: try_body_def cf_eval fake_env_def fake_state_def Let_def)

lemma fake_disk_after:
  "disk_after fake_env ''features/'' fake_profile (disk fake_state)
     [''cliqueA/song1.mp3'', ''cliqueA/song2.mp3'', ''cliqueB/song4.mp3'']
   = [''features/cliqueB/song4.h5'', ''features/cliqueB/'',
      ''features/cliqueA/song1.h5'', ''features/cliqueA/'',
      ''cliqueA/song1.mp3'', ''cliqueA/song2.mp3'', ''cliqueB/song4.mp3'',
      ''list.txt'', ''gone.txt'']"
  by (simp add: try_body_def cf_eval fake_env_def fake_state_def Let_def)

text \<open>
  Claim C9. When no line of the manifest names an existing path, the runner raises the
  IOError "Empty collection txt file" and has made no call on the collaborator, written
  no artifact and reported no progress.
\<close>

theorem empty_manifest_raises:
  assumes "read_txt_file env (disk st) input_txt_file = Inr lines"
    and "filter (os_path_exists env (disk st)) lines = []"
  shows "snd (compute_features_from_list_file env input_txt_file feature_dir params st)
           = Some (IOError (''Empty collection txt file -'' @ input_txt_file @ ''- !''))
       \<and> calls (fst (compute_features_from_list_file env input_txt_file feature_dir params st))
           = calls st
       \<and> saved (fst (compute_features_from_list_file env input_txt_file feature_dir params st))
           = saved st
       \<and> progress (fst (compute_features_from_list_file env input_txt_file feature_dir params st))
           = progress st"
  by (simp add: run_empty [OF assms])

text \<open>
  Claim C9 on the test double: \<open>gone.txt\<close> names one file, which does not exist.
\<close>

theorem empty_manifest_raises_witness:
  "read_txt_file fake_env (disk fake_state) ''gone.txt'' = Inr [''cliqueA/missing.mp3'']
   \<and> filter (os_path_exists fake_env (disk fake_state)) [''cliqueA/missing.mp3''] = []
   \<and> snd (compute_features_from_list_file fake_env ''gone.txt'' ''features/'' fake_profile fake_state)
       = Some (IOError ''Empty collection txt file -gone.txt- !'')
   \<and> calls (fst (compute_features_from_list_file fake_env ''gone.txt'' ''features/'' fake_profile
                   fake_state)) = []"
proof -
  have h1: "read_txt_file fake_env (disk fake_state) ''gone.txt'' = Inr [''cliqueA/missing.mp3'']"
    by (simp add: fake_env_def)
  have h2: "filter (os_path_exists fake_env (disk fake_state)) [''cliqueA/missing.mp3''] = []"
    by (simp add: fake_env_def fake_state_def)
  have c: "calls fake_state = []" by (simp add: fake_state_def)
  from empty_manifest_raises [OF h1 h2, of "''features/''" fake_profile] h1 h2 c
  show ?thesis by simp
qed

text \<open>
  Claim C8. For a manifest whose lines are read, the files on which the extractor is
  run are exactly the existing paths, in manifest order; progress is reported once per
  existing path, as 1/N up to N/N; the call raises only when no existing path is left
  (the empty-manifest error), otherwise it returns; and a manifest from which the missing
  entries have been removed gives the same final state and the same outcome. Every
  existing path is processed to an end: it leaves either one artifact or one failure
  record (the manifest path and the path, appended to \<open>_ERRORS\<close>), the failures in
  manifest order; a path whose extraction raises is among the failures; every artifact
  holds the dictionary that \<open>compute_features\<close> returned for an existing path, at
  \<^verbatim>\<open>feature_dir + label + '/' + track id + '.h5'\<close>; and when the filesystem calls do not
  raise, the failures are exactly the paths whose extraction raises and the artifacts are
  those of the other paths, in manifest order. The disk is the one the iterations leave in
  turn: an iteration that extracts and saves leaves the disk that \<^verbatim>\<open>dd.io.save\<close> returns,
  after \<^verbatim>\<open>os.makedirs\<close> where the directory was absent, and one whose extraction raises
  leaves the disk as it was.
\<close>

theorem existing_paths_processed_in_order:
  assumes "read_txt_file env (disk st) input_txt_file = Inr lines"
  shows "audio_files_of (calls (fst (compute_features_from_list_file env input_txt_file feature_dir params st))) = audio_files_of (calls st) @ (filter (os_path_exists env (disk st)) lines)
       \<and> progress (fst (compute_features_from_list_file env input_txt_file feature_dir params st))
           = progress st @ map (\<lambda>i. (Suc i, length (filter (os_path_exists env (disk st)) lines))) [0..<length (filter (os_path_exists env (disk st)) lines)]
       \<and> length (progress (fst (compute_features_from_list_file env input_txt_file feature_dir params st))) = length (progress st) + length (filter (os_path_exists env (disk st)) lines)
       \<and> snd (compute_features_from_list_file env input_txt_file feature_dir params st)
           = (if (filter (os_path_exists env (disk st)) lines) = []
              then Some (IOError (''Empty collection txt file -'' @ input_txt_file @ ''- !''))
              else None)
       \<and> compute_features_from_list_file
           (env\<lparr>read_txt_file := \<lambda>d p. Inr (filter (os_path_exists env (disk st)) lines)\<rparr>)
           input_txt_file feature_dir params st
           = (compute_features_from_list_file env input_txt_file feature_dir params st)
       \<and> (\<exists>failed new.
             ERRORS (fst (compute_features_from_list_file env input_txt_file feature_dir params st))
               = ERRORS st @ concat (map (\<lambda>song. [input_txt_file, song]) failed)
             \<and> saved (fst (compute_features_from_list_file env input_txt_file feature_dir params st)) = saved st @ new
             \<and> subseq failed (filter (os_path_exists env (disk st)) lines)
             \<and> length new + length failed = length (filter (os_path_exists env (disk st)) lines)
             \<and> (\<forall>song\<in>set (filter (os_path_exists env (disk st)) lines). isl (snd (compute_features (features_py env) song params)) \<longrightarrow> song \<in> set failed)
             \<and> (\<forall>(target, dct)\<in>set new. \<exists>song\<in>set (filter (os_path_exists env (disk st)) lines). \<exists>work_id.
                   snd (compute_features (features_py env) song params) = Inr dct
                   \<and> index_neg2 (str_split CHR ''/'' song) = Inr work_id
                   \<and> target = feature_dir @ work_id @ ''/''
                        @ str_replace (input_audio_format params) [] (os_path_basename song)
                        @ ''.h5'')
             \<and> ((\<forall>d p. \<not> isl (os_makedirs env d p)) \<and> (\<forall>d p x. \<not> isl (dd_io_save env d p x))
                  \<longrightarrow> failed = filter (\<lambda>song. isl (snd (compute_features (features_py env) song params))) (filter (os_path_exists env (disk st)) lines)
                    \<and> list_all2 (\<lambda>(target, dct) song. \<exists>work_id.
                   snd (compute_features (features_py env) song params) = Inr dct
                   \<and> index_neg2 (str_split CHR ''/'' song) = Inr work_id
                   \<and> target = feature_dir @ work_id @ ''/''
                        @ str_replace (input_audio_format params) [] (os_path_basename song)
                        @ ''.h5'')
                        new (filter (\<lambda>song. \<not> isl (snd (compute_features (features_py env) song params))) (filter (os_path_exists env (disk st)) lines))))
       \<and> disk (fst (compute_features_from_list_file env input_txt_file feature_dir params st))
           = disk (foldl (process_song env input_txt_file feature_dir params) st (filter (os_path_exists env (disk st)) lines))
       \<and> (\<forall>st0 song dct work_id d1 d2.
             snd (compute_features (features_py env) song params) = Inr dct
             \<and> index_neg2 (str_split CHR ''/'' song) = Inr work_id
             \<and> (if \<not> os_path_exists env (disk st0) (feature_dir @ work_id @ ''/'')
                 then os_makedirs env (disk st0) (feature_dir @ work_id @ ''/'')
                 else Inr (disk st0)) = Inr d1
             \<and> dd_io_save env d1 (feature_dir @ work_id @ ''/''
                        @ str_replace (input_audio_format params) [] (os_path_basename song)
                        @ ''.h5'') dct = Inr d2
             \<longrightarrow> disk (process_song env input_txt_file feature_dir params st0 song) = d2)
       \<and> (\<forall>st0 song e.
             snd (compute_features (features_py env) song params) = Inl e
             \<longrightarrow> disk (process_song env input_txt_file feature_dir params st0 song) = disk st0)"
proof -
  let ?data = "(filter (os_path_exists env (disk st)) lines)"
  let ?failed = "failed_songs env feature_dir params (disk st) ?data"
  let ?new = "written_artifacts env feature_dir params (disk st) ?data"
  have first: "audio_files_of (calls (fst (compute_features_from_list_file env input_txt_file feature_dir params st))) = audio_files_of (calls st) @ ?data
       \<and> progress (fst (compute_features_from_list_file env input_txt_file feature_dir params st))
           = progress st @ map (\<lambda>i. (Suc i, length ?data)) [0..<length ?data]
       \<and> length (progress (fst (compute_features_from_list_file env input_txt_file feature_dir params st))) = length (progress st) + length ?data
       \<and> snd (compute_features_from_list_file env input_txt_file feature_dir params st)
           = (if ?data = []
              then Some (IOError (''Empty collection txt file -'' @ input_txt_file @ ''- !''))
              else None)
       \<and> compute_features_from_list_file
           (env\<lparr>read_txt_file := \<lambda>d p. Inr ?data\<rparr>)
           input_txt_file feature_dir params st
           = (compute_features_from_list_file env input_txt_file feature_dir params st)"
  proof (cases "?data = []")
    case True
    have "compute_features_from_list_file
           (env\<lparr>read_txt_file := \<lambda>d p. Inr ?data\<rparr>)
           input_txt_file feature_dir params st
        = (compute_features_from_list_file env input_txt_file feature_dir params st)"
      using assms True by (simp add: compute_features_from_list_file_def Let_def)
    then show ?thesis using True by (simp add: run_empty [OF assms True])
  next
    case False
    let ?st2 = "st\<lparr>LOG_FILE := LOG_FILE st @ [Info_extracting input_txt_file],
                   bar_index := 0, bar_max := length ?data, bar_finished := False\<rparr>"
    have same: "compute_features_from_list_file
             (env\<lparr>read_txt_file := \<lambda>d p. Inr ?data\<rparr>)
             input_txt_file feature_dir params st
          = (compute_features_from_list_file env input_txt_file feature_dir params st)"
      using assms False
      by (simp add: compute_features_from_list_file_def Let_def process_songs_read_txt_file)
    have p: "progress (process_songs env input_txt_file feature_dir params ?st2 ?data)
             = progress st @ map (\<lambda>i. (Suc i, length ?data)) [0..<length ?data]"
      using process_songs_progress [of env input_txt_file feature_dir params ?st2 ?data] by simp
    have c: "audio_files_of (calls (process_songs env input_txt_file feature_dir params ?st2 ?data))
             = audio_files_of (calls st) @ ?data"
      using process_songs_calls [of env input_txt_file feature_dir params ?st2 ?data] by simp
    show ?thesis
      using False same by (simp add: run_nonempty [OF assms False] p c)
  qed
  note rf = run_fields [OF assms, of feature_dir params]
  have second: "\<exists>failed new.
             ERRORS (fst (compute_features_from_list_file env input_txt_file feature_dir params st))
               = ERRORS st @ concat (map (\<lambda>song. [input_txt_file, song]) failed)
             \<and> saved (fst (compute_features_from_list_file env input_txt_file feature_dir params st)) = saved st @ new
             \<and> subseq failed ?data
             \<and> length new + length failed = length ?data
             \<and> (\<forall>song\<in>set ?data. isl (snd (compute_features (features_py env) song params)) \<longrightarrow> song \<in> set failed)
             \<and> (\<forall>(target, dct)\<in>set new. \<exists>song\<in>set ?data. \<exists>work_id.
                   snd (compute_features (features_py env) song params) = Inr dct
                   \<and> index_neg2 (str_split CHR ''/'' song) = Inr work_id
                   \<and> target = feature_dir @ work_id @ ''/''
                        @ str_replace (input_audio_format params) [] (os_path_basename song)
                        @ ''.h5'')
             \<and> ((\<forall>d p. \<not> isl (os_makedirs env d p)) \<and> (\<forall>d p x. \<not> isl (dd_io_save env d p x))
                  \<longrightarrow> failed = filter (\<lambda>song. isl (snd (compute_features (features_py env) song params))) ?data
                    \<and> list_all2 (\<lambda>(target, dct) song. \<exists>work_id.
                   snd (compute_features (features_py env) song params) = Inr dct
                   \<and> index_neg2 (str_split CHR ''/'' song) = Inr work_id
                   \<and> target = feature_dir @ work_id @ ''/''
                        @ str_replace (input_audio_format params) [] (os_path_basename song)
                        @ ''.h5'')
                        new (filter (\<lambda>song. \<not> isl (snd (compute_features (features_py env) song params))) ?data))"
    using rf(1) rf(2)
      failed_songs_subseq [of env feature_dir params "disk st" ?data]
      written_failed_length [of env feature_dir params "disk st" ?data]
      extraction_failures_recorded [of ?data env params feature_dir "disk st"]
      written_artifacts_origin [of env feature_dir params "disk st" ?data]
      no_fs_error_exact [of env feature_dir params "disk st" ?data]
    by (intro exI [of _ ?failed] exI [of _ ?new]) blast
  have third: "disk (fst (compute_features_from_list_file env input_txt_file feature_dir params st))
           = disk (foldl (process_song env input_txt_file feature_dir params) st ?data)"
    by (simp add: rf(3) foldl_process_song_disk)
  have fourth: "\<forall>st0 song dct work_id d1 d2.
             snd (compute_features (features_py env) song params) = Inr dct
             \<and> index_neg2 (str_split CHR ''/'' song) = Inr work_id
             \<and> (if \<not> os_path_exists env (disk st0) (feature_dir @ work_id @ ''/'')
                 then os_makedirs env (disk st0) (feature_dir @ work_id @ ''/'')
                 else Inr (disk st0)) = Inr d1
             \<and> dd_io_save env d1 (feature_dir @ work_id @ ''/''
                        @ str_replace (input_audio_format params) [] (os_path_basename song)
                        @ ''.h5'') dct = Inr d2
             \<longrightarrow> disk (process_song env input_txt_file feature_dir params st0 song) = d2"
    by (intro allI impI, elim conjE, rule process_song_disk_saved)
  have fifth: "\<forall>st0 song e.
             snd (compute_features (features_py env) song params) = Inl e
             \<longrightarrow> disk (process_song env input_txt_file feature_dir params st0 song) = disk st0"
    by (intro allI impI, rule process_song_disk_failed)
  from first second third fourth fifth show ?thesis by (intro conjI) blast+
qed

text \<open>
  Claim C8 on the test double: \<open>list.txt\<close> has three existing paths and one missing. Two
  artifacts are written, under the two clique directories that are created, and the
  failure of \<open>song2\<close> is recorded.
\<close>

theorem existing_paths_processed_in_order_witness:
  "read_txt_file fake_env (disk fake_state) ''list.txt''
     = Inr [''cliqueA/song1.mp3'', ''cliqueA/missing.mp3'', ''cliqueA/song2.mp3'',
            ''cliqueB/song4.mp3'']
   \<and> audio_files_of (calls (fst (compute_features_from_list_file fake_env ''list.txt''
                                   ''features/'' fake_profile fake_state)))
       = [''cliqueA/song1.mp3'', ''cliqueA/song2.mp3'', ''cliqueB/song4.mp3'']
   \<and> progress (fst (compute_features_from_list_file fake_env ''list.txt'' ''features/''
                       fake_profile fake_state))
       = [(1, 3), (2, 3), (3, 3)]
   \<and> snd (compute_features_from_list_file fake_env ''list.txt'' ''features/'' fake_profile
             fake_state) = None
   \<and> map fst (saved (fst (compute_features_from_list_file fake_env ''list.txt'' ''features/''
                              fake_profile fake_state)))
       = [''features/cliqueA/song1.h5'', ''features/cliqueB/song4.h5'']
   \<and> ERRORS (fst (compute_features_from_list_file fake_env ''list.txt'' ''features/''
                     fake_profile fake_state))
       = [''list.txt'', ''cliqueA/song2.mp3'']
   \<and> disk (fst (compute_features_from_list_file fake_env ''list.txt'' ''features/''
                   fake_profile fake_state))
       = [''features/cliqueB/song4.h5'', ''features/cliqueB/'',
          ''features/cliqueA/song1.h5'', ''features/cliqueA/'',
          ''cliqueA/song1.mp3'', ''cliqueA/song2.mp3'', ''cliqueB/song4.mp3'',
          ''list.txt'', ''gone.txt'']"
proof -
  note h1 = fake_existing(1)
  note h2 = fake_existing(2)
  have h3: "calls fake_state = []" "progress fake_state = []" "saved fake_state = []"
    "ERRORS fake_state = []"
    by (simp_all add: fake_state_def)
  have h4: "map (\<lambda>i. (Suc i, 3)) [0..<3] = [(1, 3), (2, 3), (3, 3::nat)]"
    by (simp add: upt_rec)
  note rf = run_fields [OF h1, of "''features/''" fake_profile, unfolded h2 h3 fake_failed_songs
      fake_disk_after]
  have s: "map fst (saved (fst (compute_features_from_list_file fake_env ''list.txt''
                                  ''features/'' fake_profile fake_state)))
           = [''features/cliqueA/song1.h5'', ''features/cliqueB/song4.h5'']"
    using rf(2) fake_written_artifacts by simp
  from existing_paths_processed_in_order [OF h1, of "''features/''" fake_profile]
  have "audio_files_of (calls (fst (compute_features_from_list_file fake_env ''list.txt''
                                   ''features/'' fake_profile fake_state)))
       = [''cliqueA/song1.mp3'', ''cliqueA/song2.mp3'', ''cliqueB/song4.mp3'']
   \<and> progress (fst (compute_features_from_list_file fake_env ''list.txt'' ''features/''
                       fake_profile fake_state))
       = [(1, 3), (2, 3), (3, 3)]
   \<and> snd (compute_features_from_list_file fake_env ''list.txt'' ''features/'' fake_profile
             fake_state) = None"
    unfolding h2 h3 using h4 by simp
  with h1 s rf(1) rf(3) show ?thesis by simp
qed

lemma run_one_failure:
  assumes "read_txt_file env (disk st) input_txt_file = Inr lines"
    and "failed_songs env feature_dir params (disk st)
           (filter (os_path_exists env (disk st)) lines) = [bad]"
  shows "compute_features_from_list_file env input_txt_file feature_dir params st = (st', r) \<Longrightarrow>
         length (saved st') + 1 = length (saved st) + length (filter (os_path_exists env (disk st)) lines)
         \<and> ERRORS st' = ERRORS st @ [input_txt_file, bad]
         \<and> r = None
         \<and> LOG_FILE st' = LOG_FILE st @ [Info_extracting input_txt_file, Debug_skipping bad,
                                         Info_finished (time_monotonic env - time_time env)]"
proof -
  let ?data = "filter (os_path_exists env (disk st)) lines"
  let ?st2 = "st\<lparr>LOG_FILE := LOG_FILE st @ [Info_extracting input_txt_file],
                 bar_index := 0, bar_max := length ?data, bar_finished := False\<rparr>"
  assume run: "compute_features_from_list_file env input_txt_file feature_dir params st = (st', r)"
  have ne: "?data \<noteq> []" using assms(2) by auto
  have f: "failed_songs env feature_dir params (disk ?st2) ?data = [bad]"
    using assms(2) by simp
  from process_songs_errors [of env input_txt_file feature_dir params ?st2 ?data]
  have e: "ERRORS (process_songs env input_txt_file feature_dir params ?st2 ?data)
             = ERRORS st @ [input_txt_file, bad]"
    and l: "LOG_FILE (process_songs env input_txt_file feature_dir params ?st2 ?data)
             = LOG_FILE st @ [Info_extracting input_txt_file, Debug_skipping bad]"
    and s: "length (saved (process_songs env input_txt_file feature_dir params ?st2 ?data)) + 1
             = length (saved st) + length ?data"
    unfolding f by simp_all
  from run show ?thesis
    unfolding run_nonempty [OF assms(1) ne] using e l s by auto
qed

text \<open>
  Claim C3, as amended. When exactly one of the N existing paths fails (its \<^verbatim>\<open>try\<close> body
  raises), the runner writes N-1 artifacts, appends exactly two entries to \<open>_ERRORS\<close>, the
  manifest path followed by the failing path, returns without raising, and ends the log
  with the elapsed-time summary line.
\<close>

theorem single_failure_is_isolated:
  assumes "read_txt_file env (disk st) input_txt_file = Inr lines"
    and "failed_songs env feature_dir params (disk st)
           (filter (os_path_exists env (disk st)) lines) = [bad]"
  shows "length (saved (fst (compute_features_from_list_file env input_txt_file feature_dir params st)))
           + 1
           = length (saved st) + length (filter (os_path_exists env (disk st)) lines)
       \<and> ERRORS (fst (compute_features_from_list_file env input_txt_file feature_dir params st))
           = ERRORS st @ [input_txt_file, bad]
       \<and> snd (compute_features_from_list_file env input_txt_file feature_dir params st) = None
       \<and> LOG_FILE (fst (compute_features_from_list_file env input_txt_file feature_dir params st))
           = LOG_FILE st @ [Info_extracting input_txt_file, Debug_skipping bad,
                           Info_finished (time_monotonic env - time_time env)]"
  using run_one_failure [OF assms,
      of "fst (compute_features_from_list_file env input_txt_file feature_dir params st)"
         "snd (compute_features_from_list_file env input_txt_file feature_dir params st)"]
  by simp

text \<open>
  Claim C3, as amended, on the test double: of the three existing paths of \<open>list.txt\<close>,
  \<open>song2\<close> fails; two artifacts are written and \<open>_ERRORS\<close> holds the two strings.
\<close>

theorem single_failure_is_isolated_witness:
  "failed_songs fake_env ''features/'' fake_profile (disk fake_state)
     (filter (os_path_exists fake_env (disk fake_state))
        [''cliqueA/song1.mp3'', ''cliqueA/missing.mp3'', ''cliqueA/song2.mp3'',
         ''cliqueB/song4.mp3''])
     = [''cliqueA/song2.mp3'']
   \<and> length (saved (fst (compute_features_from_list_file fake_env ''list.txt'' ''features/''
                             fake_profile fake_state))) = 2
   \<and> ERRORS (fst (compute_features_from_list_file fake_env ''list.txt'' ''features/''
                     fake_profile fake_state)) = [''list.txt'', ''cliqueA/song2.mp3'']
   \<and> snd (compute_features_from_list_file fake_env ''list.txt'' ''features/'' fake_profile
             fake_state) = None
   \<and> LOG_FILE (fst (compute_features_from_list_file fake_env ''list.txt'' ''features/''
                       fake_profile fake_state))
       = [Info_extracting ''list.txt'', Debug_skipping ''cliqueA/song2.mp3'',
          Info_finished (- 1699999900)]"
proof -
  have h2: "failed_songs fake_env ''features/'' fake_profile (disk fake_state)
     (filter (os_path_exists fake_env (disk fake_state))
        [''cliqueA/song1.mp3'', ''cliqueA/missing.mp3'', ''cliqueA/song2.mp3'',
         ''cliqueB/song4.mp3''])
     = [''cliqueA/song2.mp3'']"
    unfolding fake_existing(2) by (rule fake_failed_songs)
  have h3: "saved fake_state = []" "ERRORS fake_state = []" "LOG_FILE fake_state = []"
    "time_monotonic fake_env - time_time fake_env = - 1699999900"
    by (simp_all add: fake_state_def fake_env_def)
  from single_failure_is_isolated [OF fake_existing(1) h2] h2
  show ?thesis unfolding fake_existing(2) h3 by simp
qed

text \<open>
  Claim C3 as stated asks for exactly one entry appended to the error log. On the test
  double one path fails and \<open>_ERRORS\<close>, empty before, holds two entries afterwards.
\<close>

theorem single_failure_is_isolated_counterexample:
  "failed_songs fake_env ''features/'' fake_profile (disk fake_state)
     (filter (os_path_exists fake_env (disk fake_state))
        [''cliqueA/song1.mp3'', ''cliqueA/missing.mp3'', ''cliqueA/song2.mp3'',
         ''cliqueB/song4.mp3''])
     = [''cliqueA/song2.mp3'']
   \<and> ERRORS fake_state = []
   \<and> ERRORS (fst (compute_features_from_list_file fake_env ''list.txt'' ''features/''
                     fake_profile fake_state)) = [''list.txt'', ''cliqueA/song2.mp3'']
   \<and> length (ERRORS (fst (compute_features_from_list_file fake_env ''list.txt'' ''features/''
                             fake_profile fake_state)))
       \<noteq> length (ERRORS fake_state) + 1"
proof -
  have h2: "failed_songs fake_env ''features/'' fake_profile (disk fake_state)
     (filter (os_path_exists fake_env (disk fake_state))
        [''cliqueA/song1.mp3'', ''cliqueA/missing.mp3'', ''cliqueA/song2.mp3'',
         ''cliqueB/song4.mp3''])
     = [''cliqueA/song2.mp3'']"
    unfolding fake_existing(2) by (rule fake_failed_songs)
  have h3: "ERRORS fake_state = []" by (simp add: fake_state_def)
  obtain st' r where run: "compute_features_from_list_file fake_env ''list.txt'' ''features/''
                     fake_profile fake_state = (st', r)"
    by (cases "compute_features_from_list_file fake_env ''list.txt'' ''features/''
                     fake_profile fake_state") auto
  from run_one_failure [OF fake_existing(1) h2 run] h2 h3
  show ?thesis unfolding run by simp
qed

text \<open>
  Claim C4 fails on the code. The summary line reports \<^verbatim>\<open>start_time - time.time()\<close>: the
  monotonic reading taken at the start minus a wall-clock reading taken at the end. With
  a monotonic clock at 100 seconds and a wall clock at 1700000000 seconds the run reports
  -1699999900 seconds, a negative duration.
\<close>

theorem elapsed_time_is_start_minus_wall_clock:
  "time_monotonic fake_env = 100 \<and> time_time fake_env = 1700000000
   \<and> snd (compute_features_from_list_file fake_env ''list.txt'' ''features/'' fake_profile
             fake_state) = None
   \<and> last (LOG_FILE (fst (compute_features_from_list_file fake_env ''list.txt'' ''features/''
                             fake_profile fake_state)))
       = Info_finished (- 1699999900)
   \<and> (- 1699999900 :: real) < 0"
proof -
  have ne: "filter (os_path_exists fake_env (disk fake_state))
     [''cliqueA/song1.mp3'', ''cliqueA/missing.mp3'', ''cliqueA/song2.mp3'', ''cliqueB/song4.mp3'']
     \<noteq> []"
    unfolding fake_existing(2) by simp
  have t: "time_monotonic fake_env = 100" "time_time fake_env = 1700000000"
    "time_monotonic fake_env - time_time fake_env = - 1699999900"
    by (simp_all add: fake_env_def)
  show ?thesis
    unfolding run_nonempty [OF fake_existing(1) ne] t by simp
qed

section \<open>Properties of the orchestrator\<close>

lemma zip_replicated:
  "zip xs (zip (map (\<lambda>i. a) [0..<length xs]) (map (\<lambda>i. b) [0..<length xs]))
   = map (\<lambda>x. (x, a, b)) xs"
proof -
  have "zip xs (zip (replicate (length xs) a) (replicate (length xs) b))
        = map (\<lambda>x. (x, a, b)) xs"
    by (induction xs) auto
  then show ?thesis by (simp only: map_replicate_const length_upt diff_zero)
qed

text \<open>
  Claim C2, as amended. For every non-zero \<open>n_workers\<close> the orchestrator dispatches one
  runner invocation per path that \<^verbatim>\<open>glob.glob(temp.name)\<close> returns, each with the same
  \<open>feature_dir\<close> and the same profile: exactly one invocation, on the temporary manifest,
  when the glob returns that manifest. The number does not depend on \<open>n_workers\<close>.
\<close>

theorem one_invocation_per_manifest:
  assumes "n_workers \<noteq> 0"
  shows "dispatched (batch_feature_extractor env audio_dir feature_dir n_workers extractor_profile)
           = map (\<lambda>cpath. (cpath, feature_dir, extractor_profile)) (glob_glob env (temp_name env))
       \<and> (glob_glob env (temp_name env) = [temp_name env] \<longrightarrow>
            dispatched (batch_feature_extractor env audio_dir feature_dir n_workers
                          extractor_profile)
              = [(temp_name env, feature_dir, extractor_profile)])"
  using assms by (simp add: batch_feature_extractor_def Parallel_def Let_def zip_replicated)

text \<open>
  Claim C2, as amended, on the test double with four workers.
\<close>

theorem one_invocation_per_manifest_witness:
  "(4::int) \<noteq> 0 \<and> glob_glob fake_batch_env (temp_name fake_batch_env) = [temp_name fake_batch_env]
   \<and> dispatched (batch_feature_extractor fake_batch_env ''audio_dir'' ''features/'' 4 PROFILE)
       = [(''/work/tmpk3v9_abc'', ''features/'', PROFILE)]"
proof -
  have h: "(4::int) \<noteq> 0" by simp
  have g: "glob_glob fake_batch_env (temp_name fake_batch_env) = [temp_name fake_batch_env]"
    "temp_name fake_batch_env = ''/work/tmpk3v9_abc''"
    by (simp_all add: fake_batch_env_def)
  from one_invocation_per_manifest [OF h, of fake_batch_env "''audio_dir''" "''features/''" PROFILE]
  show ?thesis using g by simp
qed

text \<open>
  Claim C2 as stated asks for \<open>n_workers\<close> invocations. With \<open>n_workers = 4\<close> and a
  directory of two audio files, one invocation is dispatched, on the manifest of two lines.
\<close>

theorem n_workers_invocations_counterexample:
  "dispatched (batch_feature_extractor fake_batch_env ''audio_dir'' ''features/'' 4 PROFILE)
     = [(''/work/tmpk3v9_abc'', ''features/'', PROFILE)]
   \<and> length (dispatched (batch_feature_extractor fake_batch_env ''audio_dir'' ''features/'' 4
                           PROFILE)) \<noteq> 4
   \<and> manifest_written (batch_feature_extractor fake_batch_env ''audio_dir'' ''features/'' 4
                           PROFILE)
       = [''audio_dir/cliqueA/song1.mp3'' @ [CHR 0x0A], ''audio_dir/cliqueA/song2.mp3'' @ [CHR 0x0A]]"
  by (simp add: batch_feature_extractor_def Parallel_def Let_def fake_batch_env_def
      manifest_lines_def os_path_join_def suffix_to_prefix)

end
